theory Spec2Isabelle
  imports Main "HOL-Library.List_Lexorder" "HOL-Library.Product_Lexorder"
begin

section \<open>The WordPress Enterprise installer CLI (wordpress.py)\<close>

text \<open>
  The commands of wordpress.py are scripts that talk to a terminal, sleep, drive a
  progress spinner and touch the file system. Each command is embedded as a function
  from its options, the loaded configuration and a \<open>world\<close> (the operator's answers,
  the file system, and the trace of what the command has done so far) to the way the
  command left (a \<open>return\<close> statement or an uncaught exception) and the world after it.

  Calls into libraries are the boundary of the model.
  \<^item> \<open>click.echo\<close> and the \<open>Halo\<close> spinner are recorded in the trace with their
    arguments and always complete.
  \<^item> \<open>time.sleep\<close> is recorded in the trace with its argument, and raises for an argument
    it does not accept.
  \<^item> \<open>click.confirm\<close> and \<open>click.prompt\<close> take the next answer of the operator; with
    no answer left (end of input) they raise \<open>click.Abort\<close>.
  \<^item> \<open>open\<close>, \<open>os.makedirs\<close>, \<open>tarfile\<close> and \<open>shutil.rmtree\<close> act on the file system
    and raise \<open>OSError\<close> for the operations the world lists as failing.
  \<^item> \<open>time.strftime\<close> and \<open>os.getcwd\<close> read the fields \<open>clock\<close> and \<open>cwd\<close> of the world.
  \<^item> \<open>packaging.version.parse\<close> is a parameter of the commands that call it.
  \<^item> \<open>load_config()\<close> has returned a dictionary, which is the \<open>config\<close> argument.
\<close>

subsection \<open>Python values and truthiness\<close>

text \<open>The values \<open>yaml.safe_load\<close> puts into the configuration dictionary (floats apart).\<close>

datatype pyval =
    PNone
  | PBool bool
  | PInt int
  | PStr string
  | PList "pyval list"
  | PDict "(pyval \<times> pyval) list"

text \<open>What \<open>if v:\<close> tests.\<close>

fun truthy :: "pyval \<Rightarrow> bool" where
  "truthy PNone = False"
| "truthy (PBool b) = b"
| "truthy (PInt i) = (i \<noteq> 0)"
| "truthy (PStr s) = (s \<noteq> [])"
| "truthy (PList xs) = (xs \<noteq> [])"
| "truthy (PDict kvs) = (kvs \<noteq> [])"

text \<open>An option that click leaves as \<open>None\<close> when it is not given, a string otherwise.\<close>

fun given :: "string option \<Rightarrow> bool" where
  "given None = False"
| "given (Some s) = (s \<noteq> [])"

type_synonym config = "(string \<times> pyval) list"

text \<open>\<open>config.get(key, default)\<close>\<close>

definition config_get :: "config \<Rightarrow> string \<Rightarrow> pyval \<Rightarrow> pyval" where
  "config_get config key dflt = (case map_of config key of None \<Rightarrow> dflt | Some v \<Rightarrow> v)"

subsection \<open>The world: operator, file system, trace\<close>

datatype node = Dir | File string | Archive "(string \<times> node) list"

datatype io_op =
    OpenW string
  | Makedirs string
  | TarOpen string
  | TarAdd string
  | Rmtree string

datatype exn = Abort | OSError io_op | InvalidVersion string | ValueError | TypeError | OverflowError

datatype event =
    Echo string
  | EchoStyled string string
  | Confirm string bool
  | Prompt string
  | Sleep pyval
  | SpinnerStart string
  | SpinnerText string
  | SpinnerSucceed string
  | Wrote string string
  | MadeDir string
  | TarOpened string
  | TarAdded string string
  | Removed string

record world =
  confirm_answers :: "bool list"
  prompt_answers :: "string list"
  files :: "(string \<times> node) list"
  failing :: "io_op list"
  cwd :: string
  clock :: string
  trace :: "event list"

definition emit :: "event \<Rightarrow> world \<Rightarrow> world" where
  "emit e w = w\<lparr>trace := trace w @ [e]\<rparr>"

definition echo :: "string \<Rightarrow> world \<Rightarrow> world" where
  "echo s = emit (Echo s)"

definition echo_styled :: "string \<Rightarrow> string \<Rightarrow> world \<Rightarrow> world" where
  "echo_styled s fg = emit (EchoStyled fg s)"

text \<open>
  A statement that may raise, and one that cannot. \<open>run\<close> executes statements in
  sequence and stops at the first that raises.
\<close>

type_synonym step = "world \<Rightarrow> (exn + unit) \<times> world"

definition does :: "(world \<Rightarrow> world) \<Rightarrow> step" where
  "does g w = (Inr (), g w)"

fun run :: "step list \<Rightarrow> step" where
  "run [] w = (Inr (), w)"
| "run (s # ss) w = (case s w of (Inl e, w) \<Rightarrow> (Inl e, w) | (Inr u, w) \<Rightarrow> run ss w)"

text \<open>
  \<open>time.sleep(secs)\<close> takes a number: \<open>TypeError\<close> for anything else, \<open>OverflowError\<close> when
  the number of nanoseconds does not fit 64 bits, \<open>ValueError\<close> when it is negative.
  \<open>True\<close> and \<open>False\<close> are the integers 1 and 0.
\<close>

definition max_sleep :: int where
  "max_sleep = 9223372036"

fun sleep_error :: "pyval \<Rightarrow> exn option" where
  "sleep_error (PInt n) =
     (if n < - max_sleep \<or> max_sleep < n then Some OverflowError
      else if n < 0 then Some ValueError else None)"
| "sleep_error (PBool b) = None"
| "sleep_error v = Some TypeError"

definition sleep :: "pyval \<Rightarrow> step" where
  "sleep secs w =
     (case sleep_error secs of Some e \<Rightarrow> (Inl e, w) | None \<Rightarrow> (Inr (), emit (Sleep secs) w))"

definition spinner_start :: "string \<Rightarrow> world \<Rightarrow> world" where
  "spinner_start text = emit (SpinnerStart text)"

definition spinner_text :: "string \<Rightarrow> world \<Rightarrow> world" where
  "spinner_text text = emit (SpinnerText text)"

definition spinner_succeed :: "string \<Rightarrow> world \<Rightarrow> world" where
  "spinner_succeed text = emit (SpinnerSucceed text)"

text \<open>\<open>click.confirm(text)\<close>: the operator's next yes/no answer.\<close>

definition confirm :: "string \<Rightarrow> world \<Rightarrow> (exn + bool) \<times> world" where
  "confirm text w =
     (case confirm_answers w of
        [] \<Rightarrow> (Inl Abort, w)
      | b # bs \<Rightarrow> (Inr b, emit (Confirm text b) (w\<lparr>confirm_answers := bs\<rparr>)))"

text \<open>\<open>click.prompt(text, hide_input=True)\<close>: the next value the operator enters.\<close>

definition prompt :: "string \<Rightarrow> world \<Rightarrow> (exn + string) \<times> world" where
  "prompt text w =
     (case prompt_answers w of
        [] \<Rightarrow> (Inl Abort, w)
      | s # ss \<Rightarrow> (Inr s, emit (Prompt text) (w\<lparr>prompt_answers := ss\<rparr>)))"

text \<open>\<open>with open(path, 'w') as f: f.write(content)\<close>\<close>

definition write_file :: "string \<Rightarrow> string \<Rightarrow> world \<Rightarrow> (exn + unit) \<times> world" where
  "write_file path content w =
     (if OpenW path \<in> set (failing w) then (Inl (OSError (OpenW path)), w)
      else (Inr (), emit (Wrote path content)
                      (w\<lparr>files := (path, File content) # filter (\<lambda>(p, n). p \<noteq> path) (files w)\<rparr>)))"

subsection \<open>Ways a command returns\<close>

text \<open>
  Every \<open>return\<close> of the commands returns \<open>None\<close>; the constructors name the
  statement that was left, after the last message printed before it.
\<close>

datatype outcome =
    InstallationCancelled
  | TooManyFailedAttempts
  | DryRunPrinted
  | Installed
  | LicenseRequired
  | Upgraded
  | InvalidVersionFormat
  | UpdateCancelled
  | AlreadyLatest
  | Updated
  | BundleSent
  | BundleKept

type_synonym result = "(exn + outcome) \<times> world"

text \<open>
  A block of statements inside a command either falls through to the statement after
  it (\<open>Next\<close>, with the value it leaves in its variable) or executes \<open>return\<close>.
\<close>

datatype 'a flow = Next 'a | Returned

subsection \<open>install\<close>

datatype target = Kubernetes | Linux

text \<open>The options \<open>install\<close> and \<open>upgrade\<close> share, then those of \<open>install\<close> alone.\<close>

record flags =
  dry_run :: bool
  airgap_bundle :: "string option"
  license_path :: "string option"
  key_file :: "string option"
  cert_file :: "string option"
  target :: target
  yes :: bool

record install_flags = flags +
  manager_port :: int
  manager_password :: "string option"

text \<open>\<open>str\<close> of an integer, for the f-string of the manager URL.\<close>

definition digit :: "nat \<Rightarrow> char" where
  "digit d = ''0123456789'' ! d"

function str_nat :: "nat \<Rightarrow> string" where
  "str_nat n = (if n < 10 then [digit n] else str_nat (n div 10) @ [digit (n mod 10)])"
  by pat_completeness auto
termination
  by (relation "measure id") auto

declare str_nat.simps [simp del]

definition str_int :: "int \<Rightarrow> string" where
  "str_int i = (if i < 0 then ''-'' @ str_nat (nat (- i)) else str_nat (nat i))"

text \<open>Lines 55-61.\<close>

definition install_cert_check :: "install_flags \<Rightarrow> world \<Rightarrow> (exn + unit flow) \<times> world" where
  "install_cert_check f w =
     (if target f = Linux \<and> \<not> (given (key_file f) \<and> given (cert_file f)) then
        let w = echo_styled ''No certificate files provided. A self-signed certificate will be used.'' ''yellow'' w;
            w = echo ''To use your own certificate, provide both --key-file and --cert-file flags.\<newline>'' w
        in if yes f then (Inr (Next ()), w)
           else (case confirm ''Do you want to continue with a self-signed certificate?'' w of
                   (Inl e, w) \<Rightarrow> (Inl e, w)
                 | (Inr True, w) \<Rightarrow> (Inr (Next ()), w)
                 | (Inr False, w) \<Rightarrow>
                     (Inr Returned, echo ''\<newline>Installation cancelled. Please run the command again with --key-file and --cert-file flags.\<newline>'' w))
      else (Inr (Next ()), w))"

text \<open>
  Lines 66-76, the \<open>while attempts < 3\<close> loop, from the values of \<open>attempts\<close> and
  \<open>manager_password\<close> at its head. It is left by \<open>break\<close> with the password entered, or
  by the \<open>return\<close> of line 76.
\<close>

function password_loop :: "nat \<Rightarrow> string option \<Rightarrow> world \<Rightarrow> (exn + string option flow) \<times> world" where
  "password_loop attempts password w =
     (if attempts < 3 then
        (case prompt ''\<newline>Set password for WordPress Enterprise manager'' w of
           (Inl e, w) \<Rightarrow> (Inl e, w)
         | (Inr entered, w) \<Rightarrow>
             (case prompt ''Confirm password'' w of
                (Inl e, w) \<Rightarrow> (Inl e, w)
              | (Inr confirmation, w) \<Rightarrow>
                  if entered = confirmation then (Inr (Next (Some entered)), w)
                  else if attempts + 1 < 3 then
                    password_loop (attempts + 1) (Some entered)
                      (echo ''Passwords do not match. Please try again.'' w)
                  else (Inr Returned, echo ''\<newline>Too many failed attempts. Installation cancelled.\<newline>'' w)))
      else (Inr (Next password), w))"
  by pat_completeness auto
termination
  by (relation "measure (\<lambda>(attempts, p, w). 3 - attempts)") auto

declare password_loop.simps [simp del]

text \<open>Lines 63-76.\<close>

definition install_get_password :: "install_flags \<Rightarrow> world \<Rightarrow> (exn + string option flow) \<times> world" where
  "install_get_password f w =
     (if \<not> given (manager_password f) then password_loop 0 (manager_password f) w
      else (Inr (Next (manager_password f)), w))"

text \<open>\<open>time.sleep(config.get('sleep_interval', 3))\<close>\<close>

definition pause :: "config \<Rightarrow> step" where
  "pause config = sleep (config_get config ''sleep_interval'' (PInt 3))"

text \<open>\<open>airgap_bundle or config.get('push_images', True)\<close>\<close>

definition push_images :: "'a flags_scheme \<Rightarrow> config \<Rightarrow> bool" where
  "push_images f config =
     (given (airgap_bundle f) \<or> truthy (config_get config ''push_images'' (PBool True)))"

text \<open>
  Lines 98-110 of \<open>install\<close>, and the same statements at lines 207-219 of \<open>upgrade\<close>.
\<close>

definition docker_commands :: "string option \<Rightarrow> world \<Rightarrow> world" where
  "docker_commands airgap w =
     (let w = echo ''\<newline>Use the following docker commands to load and push the images:'' w;
          w = (if given airgap then echo (''docker load -i '' @ the airgap) w
               else
                 let w = echo ''docker pull images.wordpress.com/proxy/wordpress/wordpress:latest'' w;
                     w = echo ''docker pull images.wordpress.com/proxy/wordpress/wordpress-runner:latest'' w
                 in echo ''docker pull images.wordpress.com/proxy/wordpress/wordpress-actions-runner:latest'' w);
          w = echo ''docker tag wordpress:latest registry.example.com/wordpress:latest'' w;
          w = echo ''docker tag wordpress-runner:latest registry.example.com/wordpress-runner:latest'' w;
          w = echo ''docker tag wordpress-actions-runner:latest registry.example.com/wordpress-actions-runner:latest'' w;
          w = echo ''docker push registry.example.com/wordpress:latest'' w;
          w = echo ''docker push registry.example.com/wordpress-runner:latest'' w
      in echo ''docker push registry.example.com/wordpress-actions-runner:latest'' w)"

text \<open>Lines 90-97 of \<open>install\<close>, and the same statements at lines 199-206 of \<open>upgrade\<close>.\<close>

definition prepare_files :: "config \<Rightarrow> step" where
  "prepare_files config =
     run [does (spinner_start ''Preparing files''),
          write_file ''wordpress.tgz'' [],
          write_file ''wordpress.yaml'' ''# values.yaml for wordpress\<newline>'',
          pause config,
          does (spinner_succeed ''Files prepared'')]"

text \<open>Lines 89-116: the \<open>if dry_run:\<close> block under \<open>target == 'kubernetes'\<close>.\<close>

definition install_dry_run :: "install_flags \<Rightarrow> config \<Rightarrow> world \<Rightarrow> result" where
  "install_dry_run f config w =
     (case prepare_files config w of
        (Inl e, w) \<Rightarrow> (Inl e, w)
      | (Inr u, w) \<Rightarrow>
          let w = docker_commands (airgap_bundle f) w;
              w = echo ''\<newline>Use the following helm commands to install WordPress Enterprise:'' w;
              w = echo ''helm install wordpress ./wordpress.tgz '' w;
              w = echo ''  --namespace wordpress '' w;
              w = echo ''  --create-namespace '' w;
              w = echo ''  --values wordpress.yaml\<newline>'' w
          in (Inr DryRunPrinted, w))"

text \<open>Lines 117-129: the rest of the \<open>target == 'kubernetes'\<close> block.\<close>

definition install_kubernetes :: "install_flags \<Rightarrow> config \<Rightarrow> step" where
  "install_kubernetes f config =
     run ([does (spinner_start ''Waiting for registry info''),
         pause config]
       @ (if push_images f config
         then [does (spinner_text ''Pushing images to registry''), pause config] else [])
       @ [does (spinner_succeed ''Setup complete''),
         does (spinner_start ''Validating environment''),
         pause config,
         does (spinner_text ''Installing WordPress Enterprise''),
         pause config,
         does (spinner_succeed ''Installation complete'')])"

text \<open>Lines 132-159: the \<open>target == 'linux'\<close> block.\<close>

definition install_linux :: "install_flags \<Rightarrow> config \<Rightarrow> step" where
  "install_linux f config =
     run ([does (spinner_start ''Waiting for setup info''),
         pause config]
       @ (if push_images f config
         then [does (spinner_text ''Pushing images to registry''), pause config] else [])
       @ [does (spinner_text ''Validating host requirements''),
         pause config,
         does (spinner_text ''Setting up host''),
         pause config]
       @ (if truthy (config_get config ''multi_node'' (PBool False))
         then [does (spinner_text ''Waiting for other hosts''), pause config] else [])
       @ [does (spinner_succeed ''Setup complete''),
         does (spinner_start ''Installing storage''),
         pause config,
         does (spinner_text ''Installing registry''),
         pause config,
         does (spinner_text ''Preparing disaster recovery''),
         pause config,
         does (spinner_text ''Installing additional components''),
         pause config,
         does (spinner_text ''Validating environment''),
         pause config,
         does (spinner_text ''Installing WordPress Enterprise''),
         pause config,
         does (spinner_succeed ''Installation complete'')])"

text \<open>Lines 78-86.\<close>

definition install_await_configuration :: "install_flags \<Rightarrow> config \<Rightarrow> step" where
  "install_await_configuration f config =
     run ([does (echo ''\<newline>Visit the WordPress Enterprise manager to continue:''),
         does (echo (''https://shorturl.at/c21df:'' @ str_int (manager_port f))),
         pause config,
         does (echo []),
         does (spinner_start ''Waiting for configuration''),
         pause config,
         does (spinner_succeed ''Configuration complete'')])"

text \<open>Lines 78-163: what \<open>install\<close> does once it has a manager password.\<close>

definition install_steps :: "install_flags \<Rightarrow> config \<Rightarrow> world \<Rightarrow> result" where
  "install_steps f config w =
     (case install_await_configuration f config w of
        (Inl e, w) \<Rightarrow> (Inl e, w)
      | (Inr u, w) \<Rightarrow>
          if target f = Kubernetes \<and> dry_run f then install_dry_run f config w
          else
            (case run ((if target f = Kubernetes then [install_kubernetes f config] else [])
                       @ (if target f = Linux then [install_linux f config] else [])) w of
               (Inl e, w) \<Rightarrow> (Inl e, w)
             | (Inr u, w) \<Rightarrow>
                 let w = echo ''\<newline>WordPress Enterprise installed successfully.\<newline>'' w;
                     w = echo ''The Admin Console is available at:'' w;
                     w = echo ''https://shorturl.at/7gpFW\<newline>'' w
                 in (Inr Installed, w)))"

text \<open>Lines 51-163.\<close>

definition install :: "install_flags \<Rightarrow> config \<Rightarrow> world \<Rightarrow> result" where
  "install f config w =
     (case install_cert_check f w of
        (Inl e, w) \<Rightarrow> (Inl e, w)
      | (Inr Returned, w) \<Rightarrow> (Inr InstallationCancelled, w)
      | (Inr (Next u), w) \<Rightarrow>
          (case install_get_password f w of
             (Inl e, w) \<Rightarrow> (Inl e, w)
           | (Inr Returned, w) \<Rightarrow> (Inr TooManyFailedAttempts, w)
           | (Inr (Next password), w) \<Rightarrow> install_steps f config w))"

subsection \<open>upgrade\<close>

text \<open>Lines 225-237, and the same statements at lines 240-252 under \<open>target == 'linux'\<close>.\<close>

definition upgrade_kubernetes :: "flags \<Rightarrow> config \<Rightarrow> step" where
  "upgrade_kubernetes f config =
     run ([does (spinner_start ''Waiting for registry info''),
         pause config]
       @ (if push_images f config
         then [does (spinner_text ''Pushing images to registry''), pause config] else [])
       @ [does (spinner_succeed ''Setup complete''),
         does (spinner_start ''Validating environment''),
         pause config,
         does (spinner_text ''Upgrading WordPress Enterprise''),
         pause config,
         does (spinner_succeed ''Upgrade complete'')])"

definition upgrade_linux :: "flags \<Rightarrow> config \<Rightarrow> step" where
  "upgrade_linux f config =
     run ([does (spinner_start ''Waiting for registry info''),
         pause config]
       @ (if push_images f config
         then [does (spinner_text ''Pushing images to registry''), pause config] else [])
       @ [does (spinner_succeed ''Setup complete''),
         does (spinner_start ''Validating environment''),
         pause config,
         does (spinner_text ''Upgrading WordPress Enterprise''),
         pause config,
         does (spinner_succeed ''Upgrade complete'')])"

text \<open>Lines 198-224: the \<open>if dry_run:\<close> block under \<open>target == 'kubernetes'\<close>.\<close>

definition upgrade_dry_run :: "flags \<Rightarrow> config \<Rightarrow> world \<Rightarrow> result" where
  "upgrade_dry_run f config w =
     (case prepare_files config w of
        (Inl e, w) \<Rightarrow> (Inl e, w)
      | (Inr u, w) \<Rightarrow>
          let w = docker_commands (airgap_bundle f) w;
              w = echo ''\<newline>Use the following helm commands to upgrade WordPress Enterprise:'' w;
              w = echo ''helm upgrade wordpress ./wordpress.tgz '' w;
              w = echo ''  --namespace wordpress '' w;
              w = echo ''  --values wordpress.yaml\<newline>'' w
          in (Inr DryRunPrinted, w))"

text \<open>Lines 184-195.\<close>

definition upgrade_await_configuration :: "flags \<Rightarrow> config \<Rightarrow> step" where
  "upgrade_await_configuration f config =
     run ((if given (key_file f) \<and> given (cert_file f)
         then [does (echo ''\<newline>Certificate has been updated.'')] else [])
       @ [does (echo ''\<newline>Visit the WordPress Enterprise manager to continue:''),
         does (echo ''https://shorturl.at/c21df''),
         pause config,
         does (echo []),
         does (spinner_start ''Waiting for configuration''),
         pause config,
         does (spinner_succeed ''Configuration complete'')])"

text \<open>Lines 174-256.\<close>

definition upgrade :: "flags \<Rightarrow> config \<Rightarrow> world \<Rightarrow> result" where
  "upgrade f config w =
     (if given (airgap_bundle f) \<and> \<not> given (license_path f) then
        let w = echo_styled ''\<newline>License file is required for airgap installations.'' ''red'' w;
            w = echo ''Please provide a license file using the --license flag.\<newline>'' w
        in (Inr LicenseRequired, w)
      else
        (case upgrade_await_configuration f config w of
           (Inl e, w) \<Rightarrow> (Inl e, w)
         | (Inr u, w) \<Rightarrow>
             if target f = Kubernetes \<and> dry_run f then upgrade_dry_run f config w
             else
               (case run ((if target f = Kubernetes then [upgrade_kubernetes f config] else [])
                          @ (if target f = Linux then [upgrade_linux f config] else [])) w of
                  (Inl e, w) \<Rightarrow> (Inl e, w)
                | (Inr u, w) \<Rightarrow>
                    let w = echo ''\<newline>WordPress Enterprise upgraded successfully.\<newline>'' w;
                        w = echo ''The Admin Console is available at:'' w;
                        w = echo ''https://shorturl.at/7gpFW\<newline>'' w
                    in (Inr Upgraded, w))))"

subsection \<open>update\<close>

definition CURRENT_VERSION :: string where
  "CURRENT_VERSION = ''1.0.0''"

text \<open>
  \<open>packaging.version.parse\<close> belongs to a library outside the repository. The commands
  take it as the parameter \<open>parse\<close>: \<open>None\<close> where it raises \<open>InvalidVersion\<close>,
  otherwise the comparison key of the version, in a linear order.
\<close>

text \<open>Lines 14-25. An exception inside the \<open>try\<close> falls through to \<open>return None\<close>.\<close>

definition check_for_updates :: "(string \<Rightarrow> 'v::linorder option) \<Rightarrow> string option" where
  "check_for_updates parse =
     (let latest_version = ''1.1.0''
      in case parse latest_version of
           None \<Rightarrow> None
         | Some latest \<Rightarrow>
             (case parse CURRENT_VERSION of
                None \<Rightarrow> None
              | Some current \<Rightarrow> if latest > current then Some latest_version else None))"

text \<open>Lines 430-443.\<close>

definition update_steps :: "string \<Rightarrow> world \<Rightarrow> result" where
  "update_steps version w =
     (case run [does (echo (''\<newline>Updating to version '' @ version)),
                does (echo []),
                does (spinner_start ''Downloading new version''),
                sleep (PInt 2),
                does (spinner_text ''Installing update''),
                sleep (PInt 2),
                does (spinner_succeed ''Update complete''),
                does (echo (''\<newline>CLI has been updated to version '' @ version)),
                does (echo ''You can now run 'wordpress upgrade' to upgrade WordPress Enterprise.\<newline>'')]
               w of
        (Inl e, w) \<Rightarrow> (Inl e, w)
      | (Inr u, w) \<Rightarrow> (Inr Updated, w))"

text \<open>
  Lines 408-443. The \<open>parse\<close> of line 418 is outside the \<open>try\<close>: where it raises, the
  command ends with the exception.
\<close>

definition update :: "(string \<Rightarrow> 'v::linorder option) \<Rightarrow> bool \<Rightarrow> string option \<Rightarrow> world \<Rightarrow> result" where
  "update parse yes_flag version w =
     (if given version then
        (case parse (the version) of
           None \<Rightarrow>
             (Inr InvalidVersionFormat,
              echo_styled ''\<newline>Invalid version format. Please use semantic versioning (e.g. 1.2.3)'' ''red'' w)
         | Some target_version \<Rightarrow>
             (case parse CURRENT_VERSION of
                None \<Rightarrow> (Inl (InvalidVersion CURRENT_VERSION), w)
              | Some current \<Rightarrow>
                  if target_version \<le> current then
                    let w = echo_styled (''\<newline>Version '' @ the version @ '' is not newer than current version ''
                                          @ CURRENT_VERSION) ''yellow'' w
                    in if yes_flag then update_steps (the version) w
                       else (case confirm ''\<newline>Do you want to downgrade?'' w of
                               (Inl e, w) \<Rightarrow> (Inl e, w)
                             | (Inr True, w) \<Rightarrow> update_steps (the version) w
                             | (Inr False, w) \<Rightarrow> (Inr UpdateCancelled, echo ''\<newline>Update cancelled.\<newline>'' w))
                  else update_steps (the version) w))
      else
        (let latest_version = check_for_updates parse
         in if \<not> given latest_version then
              (Inr AlreadyLatest, echo ''\<newline>You are already running the latest version.'' w)
            else update_steps (the latest_version) w))"

subsection \<open>support-bundle\<close>












text \<open>Sequencing of two steps of which the first may raise.\<close>

definition and_then ::
  "(exn + 'a) \<times> world \<Rightarrow> (world \<Rightarrow> (exn + 'b) \<times> world) \<Rightarrow> (exn + 'b) \<times> world" where
  "and_then r k = (case r of (Inl e, w) \<Rightarrow> (Inl e, w) | (Inr x, w) \<Rightarrow> k w)"

text \<open>\<open>bundle_dir\<close> of line 315, from \<open>time.strftime("%Y%m%d-%H%M%S")\<close>.\<close>

definition bundle_dir :: "world \<Rightarrow> string" where
  "bundle_dir w = ''wordpress-support-bundle-'' @ clock w"






subsection \<open>What a run shows\<close>



fun shown :: "event \<Rightarrow> string list" where
  "shown (SpinnerStart text) = [text]"
| "shown (SpinnerText text) = [text]"
| "shown e = []"

definition phases :: "world \<Rightarrow> string list" where
  "phases w = concat (map shown (trace w))"

text \<open>
  Messages, questions and password prompts are the conversation with the operator;
  every other event (a pause, a spinner, a file operation) is work of the command.
\<close>

fun is_talk :: "event \<Rightarrow> bool" where
  "is_talk (Echo s) = True"
| "is_talk (EchoStyled fg s) = True"
| "is_talk (Confirm text b) = True"
| "is_talk (Prompt text) = True"
| "is_talk e = False"

definition work :: "world \<Rightarrow> event list" where
  "work w = filter (\<lambda>e. \<not> is_talk e) (trace w)"

fun is_prompt :: "event \<Rightarrow> bool" where
  "is_prompt (Prompt text) = True"
| "is_prompt e = False"

definition prompts_shown :: "world \<Rightarrow> nat" where
  "prompts_shown w = length (filter is_prompt (trace w))"

fun is_confirm :: "event \<Rightarrow> bool" where
  "is_confirm (Confirm text b) = True"
| "is_confirm e = False"

definition questions_asked :: "world \<Rightarrow> event list" where
  "questions_asked w = filter is_confirm (trace w)"

fun written :: "event \<Rightarrow> (string \<times> string) list" where
  "written (Wrote path content) = [(path, content)]"
| "written e = []"

definition writes :: "world \<Rightarrow> (string \<times> string) list" where
  "writes w = concat (map written (trace w))"

fun echoed :: "event \<Rightarrow> string list" where
  "echoed (Echo s) = [s]"
| "echoed e = []"

definition docker_lines :: "world \<Rightarrow> string list" where
  "docker_lines w = filter (\<lambda>s. take 7 s = ''docker '') (concat (map echoed (trace w)))"

text \<open>
  Two worlds with the same dialogue: the operator has been asked nothing and has
  answered nothing between them.
\<close>

definition same_dialogue :: "world \<Rightarrow> world \<Rightarrow> bool" where
  "same_dialogue w w' =
     (confirm_answers w' = confirm_answers w \<and> prompt_answers w' = prompt_answers w
      \<and> prompts_shown w' = prompts_shown w \<and> questions_asked w' = questions_asked w)"

subsection \<open>Sample runs\<close>

definition quiet_world :: world where
  "quiet_world =
     \<lparr>confirm_answers = [], prompt_answers = [], files = [], failing = [],
      cwd = ''/root'', clock = ''20250101-120000'', trace = []\<rparr>"

definition linux_flags :: install_flags where
  "linux_flags =
     \<lparr>dry_run = False, airgap_bundle = None, license_path = Some ''license.yaml'',
      key_file = None, cert_file = None, target = Linux, yes = True,
      manager_port = 30000, manager_password = Some ''secret''\<rparr>"



definition linux_upgrade_flags :: flags where
  "linux_upgrade_flags =
     \<lparr>dry_run = True, airgap_bundle = None, license_path = None,
      key_file = None, cert_file = None, target = Linux, yes = False\<rparr>"

definition cluster_flags :: install_flags where
  "cluster_flags =
     \<lparr>dry_run = False, airgap_bundle = None, license_path = Some ''license.yaml'',
      key_file = None, cert_file = None, target = Kubernetes, yes = False,
      manager_port = 30000, manager_password = Some ''secret''\<rparr>"

definition declining_world :: world where
  "declining_world = quiet_world\<lparr>confirm_answers := [False]\<rparr>"

definition host_flags_no_cert :: install_flags where
  "host_flags_no_cert = cluster_flags\<lparr>target := Linux\<rparr>"

definition airgap_upgrade_flags :: flags where
  "airgap_upgrade_flags =
     \<lparr>dry_run = False, airgap_bundle = Some ''bundle.airgap'', license_path = None,
      key_file = None, cert_file = None, target = Kubernetes, yes = False\<rparr>"

definition mistyping_world :: world where
  "mistyping_world = quiet_world\<lparr>prompt_answers := [''a'', ''b'', ''a'', ''c'', ''a'', ''d'']\<rparr>"

definition cluster_flags_no_password :: install_flags where
  "cluster_flags_no_password = cluster_flags\<lparr>manager_password := None\<rparr>"

text \<open>The instruction lines of lines 102-104 and of lines 105-110.\<close>

definition pull_each :: "string list" where
  "pull_each =
     [''docker pull images.wordpress.com/proxy/wordpress/wordpress:latest'',
      ''docker pull images.wordpress.com/proxy/wordpress/wordpress-runner:latest'',
      ''docker pull images.wordpress.com/proxy/wordpress/wordpress-actions-runner:latest'']"

definition tag_and_push :: "string list" where
  "tag_and_push =
     [''docker tag wordpress:latest registry.example.com/wordpress:latest'',
      ''docker tag wordpress-runner:latest registry.example.com/wordpress-runner:latest'',
      ''docker tag wordpress-actions-runner:latest registry.example.com/wordpress-actions-runner:latest'',
      ''docker push registry.example.com/wordpress:latest'',
      ''docker push registry.example.com/wordpress-runner:latest'',
      ''docker push registry.example.com/wordpress-actions-runner:latest'']"

definition cluster_dry_run_flags :: install_flags where
  "cluster_dry_run_flags = cluster_flags\<lparr>dry_run := True\<rparr>"


definition cluster_upgrade_dry_run_flags :: flags where
  "cluster_upgrade_dry_run_flags =
     \<lparr>dry_run = True, airgap_bundle = None, license_path = None,
      key_file = None, cert_file = None, target = Kubernetes, yes = False\<rparr>"

definition airgap_dry_run_flags :: install_flags where
  "airgap_dry_run_flags = cluster_dry_run_flags\<lparr>airgap_bundle := Some ''bundle.airgap''\<rparr>"

text \<open>
  Parsers to run \<open>update\<close> with. \<open>parse_version\<close> is \<open>packaging.version.parse\<close> on the
  versions written \<open>N(.N)*\<close> or \<open>N(.N)*-M\<close>: a release, and the release with the post-release
  number \<open>M\<close> (PEP 440 reads \<open>1.0.0-1\<close> as \<open>1.0.0.post1\<close>). The library accepts more
  strings than these (pre-releases, epochs, local versions); on every other string
  \<open>parse_version\<close> is \<open>None\<close>, which is the library's answer for the strings that are no
  version, such as \<open>abc\<close> and the empty string. The properties below apply
  \<open>parse_version\<close> to strings of the two forms and to these two strings only. The key orders
  versions as the library does: by the numbers of the release from the left, trailing
  zeros dropped (so that \<open>1.0\<close> equals \<open>1.0.0\<close>), then a release before its post-releases.
  \<open>rejecting_parse\<close> raises on every string.
\<close>

definition digit_of :: "char \<Rightarrow> nat option" where
  "digit_of c =
     map_of [(CHR ''0'', 0), (CHR ''1'', 1), (CHR ''2'', 2), (CHR ''3'', 3), (CHR ''4'', 4),
             (CHR ''5'', 5), (CHR ''6'', 6), (CHR ''7'', 7), (CHR ''8'', 8), (CHR ''9'', 9)] c"

fun number_from :: "nat \<Rightarrow> string \<Rightarrow> nat option" where
  "number_from n [] = Some n"
| "number_from n (c # cs) =
     (case digit_of c of None \<Rightarrow> None | Some d \<Rightarrow> number_from (10 * n + d) cs)"

definition number :: "string \<Rightarrow> nat option" where
  "number s = (if s = [] then None else number_from 0 s)"

fun split_on :: "char \<Rightarrow> string \<Rightarrow> string list" where
  "split_on sep [] = [ [] ]"
| "split_on sep (c # cs) =
     (if c = sep then [] # split_on sep cs
      else (case split_on sep cs of [] \<Rightarrow> [ [c] ] | x # xs \<Rightarrow> (c # x) # xs))"

definition release_numbers :: "string \<Rightarrow> nat list option" where
  "release_numbers s = those (map number (split_on CHR ''.'' s))"

definition parse_version :: "string \<Rightarrow> (nat list \<times> nat) option" where
  "parse_version s =
     (case split_on CHR ''-'' s of
        [r] \<Rightarrow>
          (case release_numbers r of
             None \<Rightarrow> None
           | Some ns \<Rightarrow> Some (rev (dropWhile (\<lambda>n. n = 0) (rev ns)), 0))
      | [r, p] \<Rightarrow>
          (case (release_numbers r, number p) of
             (Some ns, Some m) \<Rightarrow> Some (rev (dropWhile (\<lambda>n. n = 0) (rev ns)), Suc m)
           | _ \<Rightarrow> None)
      | _ \<Rightarrow> None)"

text \<open>
  Modelled from the spec: the order of section 4.5, "standard semantic-version ordering
  (major.minor.patch, numeric field comparison)". \<open>semver_fields\<close> gives the three
  numeric fields of a semantic version, which stand before a pre-release tag \<open>-...\<close>;
  \<open>semver_le\<close> compares them from the left.
\<close>

definition semver_fields :: "string \<Rightarrow> nat list option" where
  "semver_fields s =
     (case release_numbers (hd (split_on CHR ''-'' s)) of
        Some [major, minor, patch] \<Rightarrow> Some [major, minor, patch]
      | _ \<Rightarrow> None)"

definition semver_le :: "string \<Rightarrow> string \<Rightarrow> bool" where
  "semver_le a b =
     (case (semver_fields a, semver_fields b) of
        (Some x, Some y) \<Rightarrow> x \<le> y
      | _ \<Rightarrow> False)"

definition rejecting_parse :: "string \<Rightarrow> nat list option" where
  "rejecting_parse s = None"



section \<open>Properties\<close>

subsection \<open>Traces of the building blocks\<close>

lemmas prims =
  echo_def echo_styled_def spinner_start_def spinner_text_def spinner_succeed_def

lemma does_apply [simp]: "does g w = (Inr (), g w)"
  by (simp add: does_def)

lemma sleep_accepts: "sleep_error v = None \<Longrightarrow> sleep v w = (Inr (), emit (Sleep v) w)"
  by (simp add: sleep_def)

lemma sleep_rejects: "sleep_error v = Some e \<Longrightarrow> sleep v w = (Inl e, w)"
  by (simp add: sleep_def)


lemma pause_accepts:
  "sleep_error (config_get config ''sleep_interval'' (PInt 3)) = None \<Longrightarrow>
     pause config w = (Inr (), emit (Sleep (config_get config ''sleep_interval'' (PInt 3))) w)"
  by (simp add: pause_def sleep_accepts)

lemma pause_rejects:
  "sleep_error (config_get config ''sleep_interval'' (PInt 3)) = Some e \<Longrightarrow>
     pause config w = (Inl e, w)"
  by (simp add: pause_def sleep_rejects)

lemma phases_emit [simp]: "phases (emit e w) = phases w @ shown e"
  by (simp add: phases_def emit_def)

lemma work_emit [simp]: "work (emit e w) = work w @ (if is_talk e then [] else [e])"
  by (simp add: work_def emit_def)

lemma files_emit [simp]: "files (emit e w) = files w" "failing (emit e w) = failing w"
  by (simp_all add: emit_def)

lemma writes_emit [simp]: "writes (emit e w) = writes w @ written e"
  by (simp add: writes_def emit_def)


text \<open>Asking the operator is no work and leaves the file system alone.\<close>

lemma confirm_quiet:
  "confirm t w = (r, w') \<Longrightarrow> work w' = work w \<and> files w' = files w \<and> failing w' = failing w"
  by (auto simp: confirm_def work_def emit_def split: list.splits)

lemma prompt_quiet:
  "prompt t w = (r, w') \<Longrightarrow> work w' = work w \<and> files w' = files w \<and> failing w' = failing w"
  by (auto simp: prompt_def work_def emit_def split: list.splits)

lemma cert_check_quiet:
  "install_cert_check f w = (r, w') \<Longrightarrow>
     work w' = work w \<and> files w' = files w \<and> failing w' = failing w"
  by (auto simp: install_cert_check_def Let_def prims
      split: if_splits prod.splits sum.splits bool.splits dest!: confirm_quiet)

lemma password_loop_quiet:
  "password_loop n p w = (r, w') \<Longrightarrow>
     work w' = work w \<and> files w' = files w \<and> failing w' = failing w"
proof (induction n p w arbitrary: r w' rule: password_loop.induct)
  case (1 attempts password w)
  show ?case using "1.prems" "1.IH"
    apply (subst (asm) password_loop.simps)
    apply (auto split: if_splits prod.splits sum.splits dest!: prompt_quiet simp: prims)
    done
qed

lemma get_password_quiet:
  "install_get_password f w = (r, w') \<Longrightarrow>
     work w' = work w \<and> files w' = files w \<and> failing w' = failing w"
  by (auto simp: install_get_password_def split: if_splits dest: password_loop_quiet)

subsection \<open>Order of the phases of a host install\<close>




lemma install_steps_linux:
  assumes "target f = Linux"
  shows "install_steps f config w =
    (case install_await_configuration f config w of
       (Inl e, w) \<Rightarrow> (Inl e, w)
     | (Inr u, w) \<Rightarrow>
         (case install_linux f config w of
            (Inl e, w) \<Rightarrow> (Inl e, w)
          | (Inr u, w) \<Rightarrow>
              (Inr Installed,
               echo ''https://shorturl.at/7gpFW\<newline>''
                 (echo ''The Admin Console is available at:''
                    (echo ''\<newline>WordPress Enterprise installed successfully.\<newline>'' w)))))"
  using assms
  by (auto simp: install_steps_def Let_def split: prod.splits sum.splits)




subsection \<open>The dry-run flag on the host target\<close>

lemma writes_work: "writes w = concat (map written (work w))"
proof -
  have "concat (map written (filter (\<lambda>e. \<not> is_talk e) es)) = concat (map written es)" for es
    by (induction es) (auto elim: is_talk.elims)
  then show ?thesis by (simp add: writes_def work_def)
qed

lemma install_await_configuration_no_artifact:
  "writes (snd (install_await_configuration f config w)) = writes w"
  "files (snd (install_await_configuration f config w)) = files w"
  by (cases "sleep_error (config_get config ''sleep_interval'' (PInt 3))";
      simp add: install_await_configuration_def pause_accepts pause_rejects prims)+

lemma install_linux_no_artifact:
  "writes (snd (install_linux f config w)) = writes w"
  "files (snd (install_linux f config w)) = files w"
  by (cases "sleep_error (config_get config ''sleep_interval'' (PInt 3))";
      simp add: install_linux_def pause_accepts pause_rejects prims)+

lemma upgrade_await_configuration_no_artifact:
  "writes (snd (upgrade_await_configuration f config w)) = writes w"
  "files (snd (upgrade_await_configuration f config w)) = files w"
  by (cases "sleep_error (config_get config ''sleep_interval'' (PInt 3))";
      simp add: upgrade_await_configuration_def pause_accepts pause_rejects prims)+

lemma upgrade_linux_no_artifact:
  "writes (snd (upgrade_linux f config w)) = writes w"
  "files (snd (upgrade_linux f config w)) = files w"
  by (cases "sleep_error (config_get config ''sleep_interval'' (PInt 3))";
      simp add: upgrade_linux_def pause_accepts pause_rejects prims)+

lemma install_steps_host_no_artifact:
  assumes "target f = Linux"
  shows "writes (snd (install_steps f config w)) = writes w
    \<and> files (snd (install_steps f config w)) = files w
    \<and> fst (install_steps f config w) \<noteq> Inr DryRunPrinted"
proof -
  obtain r1 w1 where a: "install_await_configuration f config w = (r1, w1)"
    by (cases "install_await_configuration f config w")
  obtain r2 w2 where l: "install_linux f config w1 = (r2, w2)"
    by (cases "install_linux f config w1")
  have 1: "writes w1 = writes w" "files w1 = files w"
    using install_await_configuration_no_artifact[of f config w] a by simp_all
  have 2: "writes w2 = writes w1" "files w2 = files w1"
    using install_linux_no_artifact[of f config w1] l by simp_all
  show ?thesis
    unfolding install_steps_linux[OF assms] a using 1 2
    by (cases r1; cases r2) (simp_all add: l prims)
qed

lemma install_host_no_artifact:
  assumes "target f = Linux"
  shows "writes (snd (install f config w)) = writes w
    \<and> files (snd (install f config w)) = files w
    \<and> fst (install f config w) \<noteq> Inr DryRunPrinted"
proof -
  obtain r1 w1 where c: "install_cert_check f w = (r1, w1)"
    by (cases "install_cert_check f w")
  obtain r2 w2 where p: "install_get_password f w1 = (r2, w2)"
    by (cases "install_get_password f w1")
  have q1: "writes w1 = writes w \<and> files w1 = files w"
    using cert_check_quiet[OF c] by (simp add: writes_work)
  have q2: "writes w2 = writes w1 \<and> files w2 = files w1"
    using get_password_quiet[OF p] by (simp add: writes_work)
  show ?thesis
    using q1 q2 install_steps_host_no_artifact[OF assms, of config w2]
    by (auto simp: install_def c p split: sum.splits flow.splits)
qed

lemma upgrade_host:
  assumes "target f = Linux"
  shows "upgrade f config w =
     (if given (airgap_bundle f) \<and> \<not> given (license_path f) then
        (Inr LicenseRequired,
         echo ''Please provide a license file using the --license flag.\<newline>''
           (echo_styled ''\<newline>License file is required for airgap installations.'' ''red'' w))
      else
        (case upgrade_await_configuration f config w of
           (Inl e, w) \<Rightarrow> (Inl e, w)
         | (Inr u, w) \<Rightarrow>
             (case upgrade_linux f config w of
                (Inl e, w) \<Rightarrow> (Inl e, w)
              | (Inr u, w) \<Rightarrow>
                  (Inr Upgraded,
                   echo ''https://shorturl.at/7gpFW\<newline>''
                     (echo ''The Admin Console is available at:''
                        (echo ''\<newline>WordPress Enterprise upgraded successfully.\<newline>'' w))))))"
  using assms
  by (auto simp: upgrade_def Let_def split: prod.splits sum.splits)

lemma upgrade_host_no_artifact:
  assumes "target f = Linux"
  shows "writes (snd (upgrade f config w)) = writes w
    \<and> files (snd (upgrade f config w)) = files w
    \<and> fst (upgrade f config w) \<noteq> Inr DryRunPrinted"
proof -
  obtain r1 w1 where a: "upgrade_await_configuration f config w = (r1, w1)"
    by (cases "upgrade_await_configuration f config w")
  obtain r2 w2 where l: "upgrade_linux f config w1 = (r2, w2)"
    by (cases "upgrade_linux f config w1")
  have 1: "writes w1 = writes w" "files w1 = files w"
    using upgrade_await_configuration_no_artifact[of f config w] a by simp_all
  have 2: "writes w2 = writes w1" "files w2 = files w1"
    using upgrade_linux_no_artifact[of f config w1] l by simp_all
  show ?thesis
    unfolding upgrade_host[OF assms] a using 1 2
    by (cases r1; cases r2) (simp_all add: l prims)
qed

lemma cert_check_ignores_dry_run:
  "install_cert_check (f\<lparr>dry_run := b\<rparr>) w = install_cert_check f w"
  by (simp add: install_cert_check_def Let_def cong: if_cong)

lemma get_password_ignores_dry_run:
  "install_get_password (f\<lparr>dry_run := b\<rparr>) w = install_get_password f w"
  by (simp add: install_get_password_def)

lemma blocks_ignore_dry_run:
  "install_await_configuration (f\<lparr>dry_run := b\<rparr>) config = install_await_configuration f config"
  "install_linux (f\<lparr>dry_run := b\<rparr>) config = install_linux f config"
  "upgrade_await_configuration (g\<lparr>dry_run := b\<rparr>) config = upgrade_await_configuration g config"
  "upgrade_linux (g\<lparr>dry_run := b\<rparr>) config = upgrade_linux g config"
  by (simp_all add: install_await_configuration_def install_linux_def
      upgrade_await_configuration_def upgrade_linux_def push_images_def)

lemma install_steps_ignores_dry_run:
  assumes "target f = Linux"
  shows "install_steps (f\<lparr>dry_run := b\<rparr>) config w = install_steps f config w"
proof -
  have t: "target (f\<lparr>dry_run := b\<rparr>) = Linux" using assms by simp
  show ?thesis
    unfolding install_steps_linux[OF t] install_steps_linux[OF assms] blocks_ignore_dry_run ..
qed

lemma install_ignores_dry_run:
  assumes "target f = Linux"
  shows "install (f\<lparr>dry_run := b\<rparr>) config w = install f config w"
  unfolding install_def cert_check_ignores_dry_run get_password_ignores_dry_run
    install_steps_ignores_dry_run[OF assms] ..

lemma upgrade_ignores_dry_run:
  assumes "target f = Linux"
  shows "upgrade (f\<lparr>dry_run := b\<rparr>) config w = upgrade f config w"
proof -
  have t: "target (f\<lparr>dry_run := b\<rparr>) = Linux" using assms by simp
  show ?thesis
    unfolding upgrade_host[OF t] upgrade_host[OF assms] blocks_ignore_dry_run by simp
qed

text \<open>
  C10. On the host target (\<open>--target linux\<close>) the dry-run flag changes nothing, for
  \<open>install\<close> and for \<open>upgrade\<close>: the run with the flag is the run without it, the
  command never leaves through the dry-run block that prepares files and prints
  instructions, and it writes no file (neither \<open>wordpress.yaml\<close> nor \<open>wordpress.tgz\<close>).
\<close>

theorem host_ignores_dry_run:
  assumes "target f = Linux" and "target g = Linux"
  shows "install (f\<lparr>dry_run := True\<rparr>) config w = install (f\<lparr>dry_run := False\<rparr>) config w
     \<and> upgrade (g\<lparr>dry_run := True\<rparr>) config w = upgrade (g\<lparr>dry_run := False\<rparr>) config w
     \<and> fst (install f config w) \<noteq> Inr DryRunPrinted
     \<and> fst (upgrade g config w) \<noteq> Inr DryRunPrinted
     \<and> writes (snd (install f config w)) = writes w
     \<and> writes (snd (upgrade g config w)) = writes w
     \<and> files (snd (install f config w)) = files w
     \<and> files (snd (upgrade g config w)) = files w"
  using install_ignores_dry_run[OF assms(1)] upgrade_ignores_dry_run[OF assms(2)]
    install_host_no_artifact[OF assms(1), of config w]
    upgrade_host_no_artifact[OF assms(2), of config w]
  by simp

theorem host_ignores_dry_run_witness:
  "target linux_flags = Linux \<and> target linux_upgrade_flags = Linux
     \<and> install (linux_flags\<lparr>dry_run := True\<rparr>) [] quiet_world
         = install (linux_flags\<lparr>dry_run := False\<rparr>) [] quiet_world
     \<and> upgrade (linux_upgrade_flags\<lparr>dry_run := True\<rparr>) [] quiet_world
         = upgrade (linux_upgrade_flags\<lparr>dry_run := False\<rparr>) [] quiet_world
     \<and> fst (install linux_flags [] quiet_world) \<noteq> Inr DryRunPrinted
     \<and> fst (upgrade linux_upgrade_flags [] quiet_world) \<noteq> Inr DryRunPrinted
     \<and> writes (snd (install linux_flags [] quiet_world)) = []
     \<and> writes (snd (upgrade linux_upgrade_flags [] quiet_world)) = []
     \<and> files (snd (install linux_flags [] quiet_world)) = []
     \<and> files (snd (upgrade linux_upgrade_flags [] quiet_world)) = []"
proof -
  have t: "target linux_flags = Linux" "target linux_upgrade_flags = Linux"
    by (simp_all add: linux_flags_def linux_upgrade_flags_def)
  have e: "writes quiet_world = []" "files quiet_world = []"
    by (simp_all add: writes_def quiet_world_def)
  show ?thesis
    using host_ignores_dry_run[OF t, of "[]" quiet_world] t e by simp
qed

subsection \<open>Who is asked what\<close>

lemma trace_emit [simp]: "trace (emit e w) = trace w @ [e]"
  by (simp add: emit_def)

lemma answers_emit [simp]:
  "confirm_answers (emit e w) = confirm_answers w" "prompt_answers (emit e w) = prompt_answers w"
  by (simp_all add: emit_def)

lemma prompts_shown_emit [simp]:
  "prompts_shown (emit e w) = prompts_shown w + (if is_prompt e then 1 else 0)"
  by (simp add: prompts_shown_def emit_def)

lemma questions_asked_emit [simp]:
  "questions_asked (emit e w) = questions_asked w @ (if is_confirm e then [e] else [])"
  by (simp add: questions_asked_def emit_def)

lemma observations_update [simp]:
  "prompts_shown (w\<lparr>confirm_answers := bs\<rparr>) = prompts_shown w"
  "prompts_shown (w\<lparr>prompt_answers := ss\<rparr>) = prompts_shown w"
  "prompts_shown (w\<lparr>files := fs\<rparr>) = prompts_shown w"
  "questions_asked (w\<lparr>confirm_answers := bs\<rparr>) = questions_asked w"
  "questions_asked (w\<lparr>prompt_answers := ss\<rparr>) = questions_asked w"
  "questions_asked (w\<lparr>files := fs\<rparr>) = questions_asked w"
  "work (w\<lparr>confirm_answers := bs\<rparr>) = work w"
  "work (w\<lparr>prompt_answers := ss\<rparr>) = work w"
  "work (w\<lparr>files := fs\<rparr>) = work w"
  "phases (w\<lparr>confirm_answers := bs\<rparr>) = phases w"
  "phases (w\<lparr>prompt_answers := ss\<rparr>) = phases w"
  "phases (w\<lparr>files := fs\<rparr>) = phases w"
  "writes (w\<lparr>confirm_answers := bs\<rparr>) = writes w"
  "writes (w\<lparr>prompt_answers := ss\<rparr>) = writes w"
  "writes (w\<lparr>files := fs\<rparr>) = writes w"
  by (simp_all add: prompts_shown_def questions_asked_def work_def phases_def writes_def)

lemma same_dialogue_trans: "same_dialogue a b \<Longrightarrow> same_dialogue b c \<Longrightarrow> same_dialogue a c"
  by (simp add: same_dialogue_def)

lemma write_file_silent: "write_file p c w = (r, w') \<Longrightarrow> same_dialogue w w'"
  by (auto simp: write_file_def same_dialogue_def split: if_splits)

lemma prepare_files_silent: "same_dialogue w (snd (prepare_files config w))"
  by (cases "sleep_error (config_get config ''sleep_interval'' (PInt 3))")
    (simp_all add: prepare_files_def write_file_def pause_accepts pause_rejects prims
      same_dialogue_def)

lemma docker_commands_silent: "same_dialogue w (docker_commands a w)"
  by (simp add: docker_commands_def Let_def prims same_dialogue_def)

lemma install_kubernetes_silent: "same_dialogue w (snd (install_kubernetes f config w))"
  by (cases "sleep_error (config_get config ''sleep_interval'' (PInt 3))")
    (simp_all add: same_dialogue_def install_kubernetes_def pause_accepts pause_rejects prims)

lemma install_linux_silent: "same_dialogue w (snd (install_linux f config w))"
  by (cases "sleep_error (config_get config ''sleep_interval'' (PInt 3))")
    (simp_all add: same_dialogue_def install_linux_def pause_accepts pause_rejects prims)

lemma install_dry_run_silent: "same_dialogue w (snd (install_dry_run f config w))"
proof -
  obtain r w1 where p: "prepare_files config w = (r, w1)" by (cases "prepare_files config w")
  have s: "same_dialogue w w1" using prepare_files_silent[of w config] p by simp
  show ?thesis
    using s by (cases r) (simp_all add: same_dialogue_def install_dry_run_def p Let_def prims docker_commands_def)
qed

lemma install_await_configuration_silent:
  "same_dialogue w (snd (install_await_configuration f config w))"
  by (cases "sleep_error (config_get config ''sleep_interval'' (PInt 3))")
    (simp_all add: install_await_configuration_def same_dialogue_def pause_accepts pause_rejects
      prims)

lemma install_steps_silent: "same_dialogue w (snd (install_steps f config w))"
proof -
  obtain r0 w0 where a: "install_await_configuration f config w = (r0, w0)"
    by (cases "install_await_configuration f config w")
  have 0: "same_dialogue w w0"
    using install_await_configuration_silent[of w f config] a by simp
  have 3: "same_dialogue w (snd (install_dry_run f config w0))"
    "same_dialogue w (snd (install_kubernetes f config w0))"
    "same_dialogue w (snd (install_linux f config w0))"
    using 0 install_dry_run_silent[of w0 f config] install_kubernetes_silent[of w0 f config]
      install_linux_silent[of w0 f config]
    by (blast intro: same_dialogue_trans)+
  show ?thesis
  proof (cases r0)
    case (Inl e)
    with 0 show ?thesis by (simp add: install_steps_def a)
  next
    case (Inr u)
    show ?thesis
    proof (cases "target f")
      case Kubernetes
      obtain r1 w1 where k: "install_kubernetes f config w0 = (r1, w1)"
        by (cases "install_kubernetes f config w0")
      with 3 Inr Kubernetes show ?thesis
        by (cases r1) (simp_all add: install_steps_def a same_dialogue_def prims)
    next
      case Linux
      obtain r1 w1 where k: "install_linux f config w0 = (r1, w1)"
        by (cases "install_linux f config w0")
      with 3 Inr Linux show ?thesis
        by (cases r1) (simp_all add: install_steps_def a same_dialogue_def prims)
    qed
  qed
qed

lemma cert_check_no_prompt:
  "install_cert_check f w = (r, w') \<Longrightarrow>
     prompt_answers w' = prompt_answers w \<and> prompts_shown w' = prompts_shown w"
  by (auto simp: install_cert_check_def confirm_def Let_def prims
      split: if_splits list.splits bool.splits)

lemma cert_check_kubernetes: "target f = Kubernetes \<Longrightarrow> install_cert_check f w = (Inr (Next ()), w)"
  by (simp add: install_cert_check_def)

lemma prompt_cases:
  "prompt t w = (r, w') \<Longrightarrow>
     (r = Inl Abort \<and> w' = w) \<or>
     (\<exists>s ss. prompt_answers w = s # ss \<and> r = Inr s \<and> w' = emit (Prompt t) (w\<lparr>prompt_answers := ss\<rparr>))"
  by (auto simp: prompt_def split: list.splits)

lemma prompt_no_confirm:
  "prompt t w = (r, w') \<Longrightarrow>
     confirm_answers w' = confirm_answers w \<and> questions_asked w' = questions_asked w
     \<and> prompts_shown w' \<le> prompts_shown w + 1"
  by (auto dest!: prompt_cases)

lemma password_loop_no_confirm:
  "password_loop n p w = (r, w') \<Longrightarrow>
     confirm_answers w' = confirm_answers w \<and> questions_asked w' = questions_asked w"
proof (induction n p w arbitrary: r w' rule: password_loop.induct)
  case (1 attempts password w)
  show ?case
  proof (cases "attempts < 3")
    case False
    with "1.prems" show ?thesis by (simp add: password_loop.simps)
  next
    case True
    obtain r1 w1 where a: "prompt ''\<newline>Set password for WordPress Enterprise manager'' w = (r1, w1)"
      by (cases "prompt ''\<newline>Set password for WordPress Enterprise manager'' w")
    obtain r2 w2 where b: "prompt ''Confirm password'' w1 = (r2, w2)"
      by (cases "prompt ''Confirm password'' w1")
    note fa = prompt_no_confirm[OF a] and fb = prompt_no_confirm[OF b]
    show ?thesis
    proof (cases r1)
      case (Inl e)
      with "1.prems" True a fa show ?thesis by (simp add: password_loop.simps[of attempts])
    next
      case (Inr entered)
      note r1 = this
      show ?thesis
      proof (cases r2)
        case (Inl e)
        with "1.prems" True a b r1 fa fb show ?thesis by (simp add: password_loop.simps[of attempts])
      next
        case (Inr confirmation)
        show ?thesis
          using "1.prems" True a b r1 Inr fa fb
            "1.IH"[OF True a[symmetric] r1 b[symmetric] Inr, of r w']
          by (auto simp: password_loop.simps[of attempts] prims split: if_splits)
      qed
    qed
  qed
qed

lemma password_loop_bound:
  "password_loop n p w = (r, w') \<Longrightarrow> prompts_shown w' \<le> prompts_shown w + 2 * (3 - n)"
proof (induction n p w arbitrary: r w' rule: password_loop.induct)
  case (1 attempts password w)
  show ?case
  proof (cases "attempts < 3")
    case False
    with "1.prems" show ?thesis by (simp add: password_loop.simps)
  next
    case True
    obtain r1 w1 where a: "prompt ''\<newline>Set password for WordPress Enterprise manager'' w = (r1, w1)"
      by (cases "prompt ''\<newline>Set password for WordPress Enterprise manager'' w")
    obtain r2 w2 where b: "prompt ''Confirm password'' w1 = (r2, w2)"
      by (cases "prompt ''Confirm password'' w1")
    note fa = prompt_no_confirm[OF a] and fb = prompt_no_confirm[OF b]
    show ?thesis
    proof (cases r1)
      case (Inl e)
      with "1.prems" True a fa show ?thesis by (auto simp: password_loop.simps[of attempts])
    next
      case (Inr entered)
      note r1 = this
      show ?thesis
      proof (cases r2)
        case (Inl e)
        with "1.prems" True a b r1 fa fb show ?thesis by (auto simp: password_loop.simps[of attempts])
      next
        case (Inr confirmation)
        show ?thesis
          using "1.prems" True a b r1 Inr fa fb
            "1.IH"[OF True a[symmetric] r1 b[symmetric] Inr, of r w']
          by (auto simp: password_loop.simps[of attempts] prims split: if_splits)
      qed
    qed
  qed
qed

lemma get_password_bound:
  "install_get_password f w = (r, w') \<Longrightarrow> prompts_shown w' \<le> prompts_shown w + 2 * 3"
  using password_loop_bound[of 0 "manager_password f" w r w']
  by (auto simp: install_get_password_def split: if_splits)

lemma get_password_no_confirm:
  "install_get_password f w = (r, w') \<Longrightarrow>
     confirm_answers w' = confirm_answers w \<and> questions_asked w' = questions_asked w"
  using password_loop_no_confirm[of 0 "manager_password f" w r w']
  by (auto simp: install_get_password_def split: if_splits)

text \<open>Three mismatches in a row.\<close>

lemma password_loop_three_mismatches:
  assumes "prompt_answers w = p1 # c1 # p2 # c2 # p3 # c3 # rest"
    and "p1 \<noteq> c1" and "p2 \<noteq> c2" and "p3 \<noteq> c3"
  shows "fst (password_loop 0 p w) = Inr Returned"
    and "prompts_shown (snd (password_loop 0 p w)) = prompts_shown w + 6"
    and "prompt_answers (snd (password_loop 0 p w)) = rest"
  using assms by (simp_all add: password_loop.simps[of _ _ w] password_loop.simps[of "Suc 0"] password_loop.simps[of "Suc (Suc 0)"] password_loop.simps[of 2] prompt_def prims)

subsection \<open>The licence check of an airgap upgrade\<close>

text \<open>
  C7. An upgrade that is given an airgap bundle and no licence file prints the two lines
  of the licence error and returns at once (line 182): nothing else is printed, no pause,
  spinner or file operation happens, and the file system is as it was.
\<close>

theorem upgrade_airgap_requires_license:
  assumes "given (airgap_bundle f)" and "\<not> given (license_path f)"
  shows "fst (upgrade f config w) = Inr LicenseRequired
     \<and> trace (snd (upgrade f config w)) = trace w @
         [EchoStyled ''red'' ''\<newline>License file is required for airgap installations.'',
          Echo ''Please provide a license file using the --license flag.\<newline>'']
     \<and> work (snd (upgrade f config w)) = work w
     \<and> files (snd (upgrade f config w)) = files w"
  using assms by (simp add: upgrade_def Let_def prims)

theorem upgrade_airgap_requires_license_witness:
  "given (airgap_bundle airgap_upgrade_flags) \<and> \<not> given (license_path airgap_upgrade_flags)
     \<and> fst (upgrade airgap_upgrade_flags [] quiet_world) = Inr LicenseRequired
     \<and> trace (snd (upgrade airgap_upgrade_flags [] quiet_world)) =
         [EchoStyled ''red'' ''\<newline>License file is required for airgap installations.'',
          Echo ''Please provide a license file using the --license flag.\<newline>'']
     \<and> work (snd (upgrade airgap_upgrade_flags [] quiet_world)) = []
     \<and> files (snd (upgrade airgap_upgrade_flags [] quiet_world)) = []"
proof -
  have a: "given (airgap_bundle airgap_upgrade_flags)" "\<not> given (license_path airgap_upgrade_flags)"
    by (simp_all add: airgap_upgrade_flags_def)
  have e: "trace quiet_world = []" "work quiet_world = []" "files quiet_world = []"
    by (simp_all add: quiet_world_def work_def)
  show ?thesis
    using upgrade_airgap_requires_license[OF a, of "[]" quiet_world] a e by simp
qed

subsection \<open>The certificate question\<close>

lemma install_declined:
  assumes "target f = Linux" and "\<not> (given (key_file f) \<and> given (cert_file f))" and "\<not> yes f"
    and "confirm_answers w = False # rest"
  shows "fst (install f config w) = Inr InstallationCancelled"
    and "trace (snd (install f config w)) = trace w @
         [EchoStyled ''yellow'' ''No certificate files provided. A self-signed certificate will be used.'',
          Echo ''To use your own certificate, provide both --key-file and --cert-file flags.\<newline>'',
          Confirm ''Do you want to continue with a self-signed certificate?'' False,
          Echo ''\<newline>Installation cancelled. Please run the command again with --key-file and --cert-file flags.\<newline>'']"
    and "work (snd (install f config w)) = work w"
    and "files (snd (install f config w)) = files w"
    and "prompt_answers (snd (install f config w)) = prompt_answers w"
  using assms by (auto simp: install_def install_cert_check_def confirm_def Let_def prims)

lemma install_kubernetes_no_question:
  assumes "target f = Kubernetes"
  shows "questions_asked (snd (install f config w)) = questions_asked w"
    and "confirm_answers (snd (install f config w)) = confirm_answers w"
proof -
  obtain r2 w2 where p: "install_get_password f w = (r2, w2)"
    by (cases "install_get_password f w")
  note a = get_password_no_confirm[OF p]
  note b = install_steps_silent[of w2 f config, unfolded same_dialogue_def]
  show "questions_asked (snd (install f config w)) = questions_asked w"
    and "confirm_answers (snd (install f config w)) = confirm_answers w"
    using a b by (auto simp: install_def cert_check_kubernetes[OF assms] p split: sum.splits flow.splits)
qed

text \<open>
  C6, as stated, for the cluster target: an install on \<open>--target kubernetes\<close> without
  certificate files and without \<open>--yes\<close>, with an operator who would decline, is not
  asked anything; it runs all its phases and completes.
\<close>

theorem cluster_install_asks_no_certificate_question:
  "target cluster_flags = Kubernetes
   \<and> \<not> given (key_file cluster_flags) \<and> \<not> given (cert_file cluster_flags)
   \<and> \<not> yes cluster_flags
   \<and> confirm_answers declining_world = [False]
   \<and> fst (install cluster_flags [] declining_world) = Inr Installed
   \<and> questions_asked (snd (install cluster_flags [] declining_world)) = []
   \<and> phases (snd (install cluster_flags [] declining_world)) =
        [''Waiting for configuration'', ''Waiting for registry info'', ''Pushing images to registry'',
         ''Validating environment'', ''Installing WordPress Enterprise'']"
  by (simp add: cluster_flags_def declining_world_def quiet_world_def install_def
      install_cert_check_def install_get_password_def install_steps_def
      install_await_configuration_def install_kubernetes_def push_images_def config_get_def
      pause_def sleep_def max_sleep_def Let_def prims questions_asked_def phases_def emit_def)

text \<open>
  C6, amended. On the host target (\<open>--target linux\<close>), when the key file and the
  certificate file are not both given and \<open>--yes\<close> is not set, the operator is asked to
  confirm the self-signed certificate before anything else happens; when the operator
  declines the command prints the cancellation and returns, with no work done, no file
  touched and no password asked. On the cluster target (\<open>--target kubernetes\<close>) the
  install asks no question at all and consumes no answer.
\<close>

theorem cert_check_on_host_only:
  "(target f = Linux \<and> \<not> (given (key_file f) \<and> given (cert_file f)) \<and> \<not> yes f
      \<and> confirm_answers w = False # rest \<longrightarrow>
      fst (install f config w) = Inr InstallationCancelled
      \<and> trace (snd (install f config w)) = trace w @
         [EchoStyled ''yellow'' ''No certificate files provided. A self-signed certificate will be used.'',
          Echo ''To use your own certificate, provide both --key-file and --cert-file flags.\<newline>'',
          Confirm ''Do you want to continue with a self-signed certificate?'' False,
          Echo ''\<newline>Installation cancelled. Please run the command again with --key-file and --cert-file flags.\<newline>'']
      \<and> work (snd (install f config w)) = work w
      \<and> files (snd (install f config w)) = files w
      \<and> prompt_answers (snd (install f config w)) = prompt_answers w)
   \<and> (target f = Kubernetes \<longrightarrow>
      questions_asked (snd (install f config w)) = questions_asked w
      \<and> confirm_answers (snd (install f config w)) = confirm_answers w)"
  using install_declined[of f w rest config] install_kubernetes_no_question[of f config w]
  by blast

theorem cert_check_on_host_only_witness:
  "target host_flags_no_cert = Linux
   \<and> \<not> (given (key_file host_flags_no_cert) \<and> given (cert_file host_flags_no_cert))
   \<and> \<not> yes host_flags_no_cert
   \<and> confirm_answers declining_world = False # []
   \<and> fst (install host_flags_no_cert [] declining_world) = Inr InstallationCancelled
   \<and> work (snd (install host_flags_no_cert [] declining_world)) = []
   \<and> files (snd (install host_flags_no_cert [] declining_world)) = []
   \<and> target cluster_flags = Kubernetes
   \<and> questions_asked (snd (install cluster_flags [] declining_world)) = []
   \<and> confirm_answers (snd (install cluster_flags [] declining_world)) = [False]"
proof -
  have h: "target host_flags_no_cert = Linux"
    "\<not> (given (key_file host_flags_no_cert) \<and> given (cert_file host_flags_no_cert))"
    "\<not> yes host_flags_no_cert" "confirm_answers declining_world = False # []"
    "target cluster_flags = Kubernetes"
    by (simp_all add: host_flags_no_cert_def cluster_flags_def declining_world_def)
  have e: "work declining_world = []" "files declining_world = []"
    "questions_asked declining_world = []" "confirm_answers declining_world = [False]"
    by (simp_all add: declining_world_def quiet_world_def work_def questions_asked_def)
  show ?thesis
    using cert_check_on_host_only[of host_flags_no_cert declining_world "[]" "[]"]
      cert_check_on_host_only[of cluster_flags declining_world "[]" "[]"] h e
    by simp
qed

subsection \<open>Asking for the manager password\<close>

lemma install_prompt_bound: "prompts_shown (snd (install f config w)) \<le> prompts_shown w + 2 * 3"
proof -
  obtain r1 w1 where c: "install_cert_check f w = (r1, w1)" by (cases "install_cert_check f w")
  obtain r2 w2 where p: "install_get_password f w1 = (r2, w2)" by (cases "install_get_password f w1")
  note a = cert_check_no_prompt[OF c] and b = get_password_bound[OF p]
    and d = install_steps_silent[of w2 f config, unfolded same_dialogue_def]
  show ?thesis
    using a b d by (auto simp: install_def c p split: sum.splits flow.splits)
qed

lemma install_three_mismatches:
  assumes "fst (install_cert_check f w) = Inr (Next ())" and "\<not> given (manager_password f)"
    and "prompt_answers w = p1 # c1 # p2 # c2 # p3 # c3 # rest"
    and "p1 \<noteq> c1" and "p2 \<noteq> c2" and "p3 \<noteq> c3"
  shows "fst (install f config w) = Inr TooManyFailedAttempts
    \<and> prompts_shown (snd (install f config w)) = prompts_shown w + 6
    \<and> work (snd (install f config w)) = work w
    \<and> files (snd (install f config w)) = files w"
proof -
  obtain w1 where c: "install_cert_check f w = (Inr (Next ()), w1)"
    using assms(1) by (cases "install_cert_check f w") auto
  note a = cert_check_no_prompt[OF c] and q = cert_check_quiet[OF c]
  have pa: "prompt_answers w1 = p1 # c1 # p2 # c2 # p3 # c3 # rest" using a assms(3) by simp
  note m = password_loop_three_mismatches[OF pa assms(4-6), of "manager_password f"]
  obtain r2 w2 where p: "password_loop 0 (manager_password f) w1 = (r2, w2)"
    by (cases "password_loop 0 (manager_password f) w1")
  note q2 = password_loop_quiet[OF p]
  show ?thesis
    using m a q q2 assms(2) by (simp add: install_def c install_get_password_def p)
qed

lemma install_password_given:
  assumes "given (manager_password f)"
  shows "install_get_password f w = (Inr (Next (manager_password f)), w)
    \<and> prompts_shown (snd (install f config w)) = prompts_shown w
    \<and> prompt_answers (snd (install f config w)) = prompt_answers w"
proof -
  obtain r1 w1 where c: "install_cert_check f w = (r1, w1)" by (cases "install_cert_check f w")
  note a = cert_check_no_prompt[OF c]
    and d = install_steps_silent[of w1 f config, unfolded same_dialogue_def]
  have g: "install_get_password f v = (Inr (Next (manager_password f)), v)" for v
    using assms by (simp add: install_get_password_def)
  show ?thesis
    using a d by (auto simp: install_def c g split: sum.splits flow.splits)
qed

text \<open>
  C3. An install shows at most three pairs of password prompts (password, confirmation).
  When no manager password is given, the certificate check lets the command go on and the
  operator's first three confirmations all differ from the passwords entered, the command
  prints that there were too many failed attempts and returns (line 76) after exactly
  these six prompts, with no pause, spinner or file operation done and the file system
  as it was. When a non-empty manager password is given, lines 63-76 do nothing at all,
  and the whole install shows no password prompt and consumes no entry of the operator.
\<close>

theorem password_attempts_bounded:
  "prompts_shown (snd (install f config w)) \<le> prompts_shown w + 2 * 3
   \<and> (fst (install_cert_check f w) = Inr (Next ()) \<and> \<not> given (manager_password f)
        \<and> prompt_answers w = p1 # c1 # p2 # c2 # p3 # c3 # rest
        \<and> p1 \<noteq> c1 \<and> p2 \<noteq> c2 \<and> p3 \<noteq> c3 \<longrightarrow>
      fst (install f config w) = Inr TooManyFailedAttempts
      \<and> prompts_shown (snd (install f config w)) = prompts_shown w + 6
      \<and> work (snd (install f config w)) = work w
      \<and> files (snd (install f config w)) = files w)
   \<and> (given (manager_password f) \<longrightarrow>
      install_get_password f w = (Inr (Next (manager_password f)), w)
      \<and> prompts_shown (snd (install f config w)) = prompts_shown w
      \<and> prompt_answers (snd (install f config w)) = prompt_answers w)"
  using install_prompt_bound[of f config w]
    install_three_mismatches[of f w p1 c1 p2 c2 p3 c3 rest config]
    install_password_given[of f w config]
  by blast

theorem password_attempts_bounded_witness:
  "fst (install_cert_check cluster_flags_no_password mistyping_world) = Inr (Next ())
   \<and> \<not> given (manager_password cluster_flags_no_password)
   \<and> prompt_answers mistyping_world = [''a'', ''b'', ''a'', ''c'', ''a'', ''d'']
   \<and> fst (install cluster_flags_no_password [] mistyping_world) = Inr TooManyFailedAttempts
   \<and> prompts_shown (snd (install cluster_flags_no_password [] mistyping_world)) = 6
   \<and> work (snd (install cluster_flags_no_password [] mistyping_world)) = []
   \<and> files (snd (install cluster_flags_no_password [] mistyping_world)) = []
   \<and> given (manager_password cluster_flags)
   \<and> install_get_password cluster_flags mistyping_world = (Inr (Next (Some ''secret'')), mistyping_world)
   \<and> prompts_shown (snd (install cluster_flags [] mistyping_world)) = 0
   \<and> prompt_answers (snd (install cluster_flags [] mistyping_world)) = [''a'', ''b'', ''a'', ''c'', ''a'', ''d'']"
proof -
  have h: "fst (install_cert_check cluster_flags_no_password mistyping_world) = Inr (Next ())"
    "\<not> given (manager_password cluster_flags_no_password)"
    "prompt_answers mistyping_world = [''a'', ''b'', ''a'', ''c'', ''a'', ''d'']"
    "given (manager_password cluster_flags)" "manager_password cluster_flags = Some ''secret''"
    by (simp_all add: install_cert_check_def cluster_flags_no_password_def cluster_flags_def
        mistyping_world_def)
  have e: "prompts_shown mistyping_world = 0" "work mistyping_world = []" "files mistyping_world = []"
    by (simp_all add: mistyping_world_def quiet_world_def prompts_shown_def work_def)
  show ?thesis
    using password_attempts_bounded[of cluster_flags_no_password "[]" mistyping_world
        "''a''" "''b''" "''a''" "''c''" "''a''" "''d''" "[]"]
      password_attempts_bounded[of cluster_flags "[]" mistyping_world] h e
    by simp
qed

subsection \<open>Dry run on the cluster target\<close>


lemma prepare_files_ok:
  assumes "OpenW ''wordpress.tgz'' \<notin> set (failing w)" and "OpenW ''wordpress.yaml'' \<notin> set (failing w)"
    and "sleep_error (config_get config ''sleep_interval'' (PInt 3)) = None"
  shows "fst (prepare_files config w) = Inr ()"
    and "writes (snd (prepare_files config w)) = writes w @
           [(''wordpress.tgz'', []), (''wordpress.yaml'', ''# values.yaml for wordpress\<newline>'')]"
  using assms by (simp_all add: prepare_files_def write_file_def pause_accepts prims)

lemma docker_commands_frame [simp]:
  "phases (docker_commands a w) = phases w" "writes (docker_commands a w) = writes w"
  by (simp_all add: docker_commands_def Let_def prims)



lemma install_dry_run_ok:
  assumes "OpenW ''wordpress.tgz'' \<notin> set (failing w)" and "OpenW ''wordpress.yaml'' \<notin> set (failing w)"
    and "sleep_error (config_get config ''sleep_interval'' (PInt 3)) = None"
  shows "fst (install_dry_run f config w) = Inr DryRunPrinted"
    and "writes (snd (install_dry_run f config w)) = writes w @
           [(''wordpress.tgz'', []), (''wordpress.yaml'', ''# values.yaml for wordpress\<newline>'')]"
proof -
  obtain r w1 where p: "prepare_files config w = (r, w1)" by (cases "prepare_files config w")
  note k = prepare_files_ok[OF assms, unfolded p]
  show "fst (install_dry_run f config w) = Inr DryRunPrinted"
    and "writes (snd (install_dry_run f config w)) = writes w @
           [(''wordpress.tgz'', []), (''wordpress.yaml'', ''# values.yaml for wordpress\<newline>'')]"
    using k by (simp_all add: install_dry_run_def p Let_def prims)
qed

lemma upgrade_dry_run_ok:
  assumes "OpenW ''wordpress.tgz'' \<notin> set (failing w)" and "OpenW ''wordpress.yaml'' \<notin> set (failing w)"
    and "sleep_error (config_get config ''sleep_interval'' (PInt 3)) = None"
  shows "fst (upgrade_dry_run f config w) = Inr DryRunPrinted"
    and "writes (snd (upgrade_dry_run f config w)) = writes w @
           [(''wordpress.tgz'', []), (''wordpress.yaml'', ''# values.yaml for wordpress\<newline>'')]"
proof -
  obtain r w1 where p: "prepare_files config w = (r, w1)" by (cases "prepare_files config w")
  note k = prepare_files_ok[OF assms, unfolded p]
  show "fst (upgrade_dry_run f config w) = Inr DryRunPrinted"
    and "writes (snd (upgrade_dry_run f config w)) = writes w @
           [(''wordpress.tgz'', []), (''wordpress.yaml'', ''# values.yaml for wordpress\<newline>'')]"
    using k by (simp_all add: upgrade_dry_run_def p Let_def prims)
qed













subsection \<open>The image instructions of a dry run\<close>

lemma docker_lines_emit [simp]:
  "docker_lines (emit e w) = docker_lines w @ filter (\<lambda>s. take 7 s = ''docker '') (echoed e)"
  by (simp add: docker_lines_def emit_def)

lemma docker_lines_files [simp]: "docker_lines (w\<lparr>files := fs\<rparr>) = docker_lines w"
  by (simp add: docker_lines_def)

lemma docker_lines_docker_commands:
  "docker_lines (docker_commands a w) = docker_lines w @
     (if given a then [''docker load -i '' @ the a] else pull_each) @ tag_and_push"
  by (simp add: docker_commands_def Let_def prims pull_each_def tag_and_push_def)

lemma docker_lines_prepare_files:
  "docker_lines (snd (prepare_files config w)) = docker_lines w"
  by (cases "sleep_error (config_get config ''sleep_interval'' (PInt 3))")
    (simp_all add: prepare_files_def write_file_def pause_accepts pause_rejects prims)

lemma docker_lines_install_dry_run:
  assumes "fst (install_dry_run f config w) = Inr DryRunPrinted"
  shows "docker_lines (snd (install_dry_run f config w)) = docker_lines w @
     (if given (airgap_bundle f) then [''docker load -i '' @ the (airgap_bundle f)] else pull_each)
      @ tag_and_push"
proof -
  obtain r w1 where p: "prepare_files config w = (r, w1)" by (cases "prepare_files config w")
  have s: "docker_lines w1 = docker_lines w" using docker_lines_prepare_files[of config w] p by simp
  show ?thesis
    using assms s
    by (cases r) (simp_all add: install_dry_run_def p Let_def prims docker_lines_docker_commands)
qed

lemma docker_lines_upgrade_dry_run:
  assumes "fst (upgrade_dry_run g config w) = Inr DryRunPrinted"
  shows "docker_lines (snd (upgrade_dry_run g config w)) = docker_lines w @
     (if given (airgap_bundle g) then [''docker load -i '' @ the (airgap_bundle g)] else pull_each)
      @ tag_and_push"
proof -
  obtain r w1 where p: "prepare_files config w = (r, w1)" by (cases "prepare_files config w")
  have s: "docker_lines w1 = docker_lines w" using docker_lines_prepare_files[of config w] p by simp
  show ?thesis
    using assms s
    by (cases r) (simp_all add: upgrade_dry_run_def p Let_def prims docker_lines_docker_commands)
qed

text \<open>
  C5, as stated, fails with an airgap bundle: the docker lines printed are the load
  instruction followed by the three tag and the three push instructions, seven lines
  and not the load instruction alone.
\<close>

theorem airgap_dry_run_prints_seven_docker_lines:
  "given (airgap_bundle airgap_dry_run_flags)
   \<and> fst (install_dry_run airgap_dry_run_flags [] quiet_world) = Inr DryRunPrinted
   \<and> docker_lines (snd (install_dry_run airgap_dry_run_flags [] quiet_world)) =
       [''docker load -i bundle.airgap'',
        ''docker tag wordpress:latest registry.example.com/wordpress:latest'',
        ''docker tag wordpress-runner:latest registry.example.com/wordpress-runner:latest'',
        ''docker tag wordpress-actions-runner:latest registry.example.com/wordpress-actions-runner:latest'',
        ''docker push registry.example.com/wordpress:latest'',
        ''docker push registry.example.com/wordpress-runner:latest'',
        ''docker push registry.example.com/wordpress-actions-runner:latest'']
   \<and> docker_lines (snd (install_dry_run airgap_dry_run_flags [] quiet_world)) \<noteq>
       [''docker load -i bundle.airgap'']"
proof -
  have f: "OpenW ''wordpress.tgz'' \<notin> set (failing quiet_world)"
    "OpenW ''wordpress.yaml'' \<notin> set (failing quiet_world)"
    "sleep_error (config_get [] ''sleep_interval'' (PInt 3)) = None"
    by (simp_all add: quiet_world_def config_get_def max_sleep_def)
  have h: "fst (install_dry_run airgap_dry_run_flags [] quiet_world) = Inr DryRunPrinted"
    using install_dry_run_ok(1)[OF f] by simp
  have a: "airgap_bundle airgap_dry_run_flags = Some ''bundle.airgap''"
    by (simp add: airgap_dry_run_flags_def)
  have e: "docker_lines quiet_world = []" by (simp add: docker_lines_def quiet_world_def)
  show ?thesis
    using docker_lines_install_dry_run[OF h] h a e by (simp add: tag_and_push_def)
qed

text \<open>
  C5, amended. A dry run that reaches its instructions prints, as docker lines: with an
  airgap bundle one \<open>docker load -i\<close> of the bundle, without it one \<open>docker pull\<close> for each
  of the three images; and after that, in both cases, a \<open>docker tag\<close> for each image and a
  \<open>docker push\<close> for each image to the registry. This holds for \<open>install\<close> and \<open>upgrade\<close>.
\<close>

theorem dry_run_image_instructions:
  "(fst (install_dry_run f config w) = Inr DryRunPrinted \<longrightarrow>
      docker_lines (snd (install_dry_run f config w)) = docker_lines w @
        (if given (airgap_bundle f) then [''docker load -i '' @ the (airgap_bundle f)] else pull_each)
        @ tag_and_push)
   \<and> (fst (upgrade_dry_run g config w) = Inr DryRunPrinted \<longrightarrow>
      docker_lines (snd (upgrade_dry_run g config w)) = docker_lines w @
        (if given (airgap_bundle g) then [''docker load -i '' @ the (airgap_bundle g)] else pull_each)
        @ tag_and_push)"
  using docker_lines_install_dry_run[of f config w] docker_lines_upgrade_dry_run[of g config w]
  by blast

theorem dry_run_image_instructions_witness:
  "fst (install_dry_run airgap_dry_run_flags [] quiet_world) = Inr DryRunPrinted
   \<and> docker_lines (snd (install_dry_run airgap_dry_run_flags [] quiet_world)) =
        ''docker load -i bundle.airgap'' # tag_and_push
   \<and> fst (upgrade_dry_run cluster_upgrade_dry_run_flags [] quiet_world) = Inr DryRunPrinted
   \<and> docker_lines (snd (upgrade_dry_run cluster_upgrade_dry_run_flags [] quiet_world)) =
        pull_each @ tag_and_push"
proof -
  have f: "OpenW ''wordpress.tgz'' \<notin> set (failing quiet_world)"
    "OpenW ''wordpress.yaml'' \<notin> set (failing quiet_world)"
    "sleep_error (config_get [] ''sleep_interval'' (PInt 3)) = None"
    by (simp_all add: quiet_world_def config_get_def max_sleep_def)
  have h: "fst (install_dry_run airgap_dry_run_flags [] quiet_world) = Inr DryRunPrinted"
    "fst (upgrade_dry_run cluster_upgrade_dry_run_flags [] quiet_world) = Inr DryRunPrinted"
    using install_dry_run_ok(1)[OF f] upgrade_dry_run_ok(1)[OF f] by simp_all
  have a: "airgap_bundle airgap_dry_run_flags = Some ''bundle.airgap''"
    "airgap_bundle cluster_upgrade_dry_run_flags = None"
    by (simp_all add: airgap_dry_run_flags_def cluster_upgrade_dry_run_flags_def)
  have e: "docker_lines quiet_world = []" by (simp add: docker_lines_def quiet_world_def)
  show ?thesis
    using dry_run_image_instructions[of airgap_dry_run_flags "[]" quiet_world
        cluster_upgrade_dry_run_flags] h a e
    by simp
qed

subsection \<open>update\<close>

lemma update_unparsable:
  fixes parse :: "string \<Rightarrow> 'v::linorder option"
  assumes "given version" and "parse (the version) = None"
  shows "update parse yes_flag version w =
    (Inr InvalidVersionFormat,
     echo_styled ''\<newline>Invalid version format. Please use semantic versioning (e.g. 1.2.3)'' ''red'' w)"
  using assms by (simp add: update_def)

lemma update_downgrade_declined:
  fixes parse :: "string \<Rightarrow> 'v::linorder option"
  assumes "given version" and "parse (the version) = Some requested"
    and "parse CURRENT_VERSION = Some current" and "requested \<le> current"
    and "\<not> yes_flag" and "confirm_answers w = False # rest"
  shows "fst (update parse yes_flag version w) = Inr UpdateCancelled"
    and "work (snd (update parse yes_flag version w)) = work w"
  using assms by (simp_all add: update_def confirm_def Let_def prims)

lemma check_for_updates_nothing:
  fixes parse :: "string \<Rightarrow> 'v::linorder option"
  assumes "parse ''1.1.0'' = None \<or> parse CURRENT_VERSION = None
      \<or> the (parse ''1.1.0'') \<le> the (parse CURRENT_VERSION)"
  shows "check_for_updates parse = None"
  using assms by (auto simp: check_for_updates_def Let_def split: option.splits)

lemma update_nothing_newer:
  fixes parse :: "string \<Rightarrow> 'v::linorder option"
  assumes "\<not> given version" and "check_for_updates parse = None"
  shows "update parse yes_flag version w =
    (Inr AlreadyLatest, echo ''\<newline>You are already running the latest version.'' w)"
  using assms by (simp add: update_def)

lemma update_empty_version:
  fixes parse :: "string \<Rightarrow> 'v::linorder option"
  assumes "\<not> given version"
  shows "update parse yes_flag version w = update parse yes_flag None w"
  using assms by (simp add: update_def)

lemma split_on_absent: "sep \<notin> set s \<Longrightarrow> split_on sep s = [s]"
  by (induction s) auto

lemma parse_version_current: "parse_version CURRENT_VERSION = Some ([1], 0)"
  by (simp add: parse_version_def release_numbers_def number_def digit_of_def CURRENT_VERSION_def)

lemma semver_fields_current: "semver_fields CURRENT_VERSION = Some [1, 0, 0]"
  by (simp add: semver_fields_def release_numbers_def number_def digit_of_def CURRENT_VERSION_def)

lemma semver_fields_release:
  assumes "semver_fields s = Some x"
  shows "\<exists>major minor patch. x = [major, minor, patch]
    \<and> release_numbers (hd (split_on CHR ''-'' s)) = Some [major, minor, patch]"
  using assms by (auto simp: semver_fields_def split: option.splits list.splits)

lemma release_key_le_current:
  assumes "[major, minor, patch] \<le> [1, 0, 0 :: nat]"
  shows "rev (dropWhile (\<lambda>n. n = 0) (rev [major, minor, patch])) \<le> [1]"
  using assms by auto

lemma parse_version_semver_le:
  assumes "CHR ''-'' \<notin> set s" and "semver_le s CURRENT_VERSION"
  shows "\<exists>requested. parse_version s = Some requested \<and> requested \<le> ([1], 0)"
proof -
  obtain x where x: "semver_fields s = Some x" and l: "x \<le> [1, 0, 0]"
    using assms(2) by (auto simp: semver_le_def semver_fields_current split: option.splits)
  obtain major minor patch where m: "x = [major, minor, patch]"
    and r: "release_numbers (hd (split_on CHR ''-'' s)) = Some [major, minor, patch]"
    using semver_fields_release[OF x] by blast
  have p: "parse_version s = Some (rev (dropWhile (\<lambda>n. n = 0) (rev [major, minor, patch])), 0)"
    using r by (simp add: parse_version_def split_on_absent[OF assms(1)])
  have "rev (dropWhile (\<lambda>n. n = 0) (rev [major, minor, patch])) \<le> [1]"
    using l unfolding m by (rule release_key_le_current)
  then have "(rev (dropWhile (\<lambda>n. n = 0) (rev [major, minor, patch])), 0 :: nat) \<le> ([1], 0)"
    by (simp add: less_eq_prod_def)
  with p show ?thesis by blast
qed

lemma update_semver_downgrade_declined:
  assumes "given version" and "CHR ''-'' \<notin> set (the version)"
    and "semver_le (the version) CURRENT_VERSION"
    and "\<not> yes_flag" and "confirm_answers w = False # rest"
  shows "fst (update parse_version yes_flag version w) = Inr UpdateCancelled"
    and "work (snd (update parse_version yes_flag version w)) = work w"
proof -
  obtain requested where r: "parse_version (the version) = Some requested"
    and l: "requested \<le> ([1], 0)"
    using parse_version_semver_le[OF assms(2,3)] by blast
  show "fst (update parse_version yes_flag version w) = Inr UpdateCancelled"
    and "work (snd (update parse_version yes_flag version w)) = work w"
    using update_downgrade_declined[where parse = parse_version and version = version
        and requested = requested and current = "([1], 0)" and yes_flag = yes_flag
        and w = w and rest = rest, OF assms(1) r parse_version_current l assms(4,5)]
    by simp_all
qed

text \<open>
  C8, as stated, fails. The version \<open>1.0.0-1\<close> is at most the current version \<open>1.0.0\<close> in
  semantic-version ordering (the three numeric fields are equal, and a pre-release stands
  before its release), but the version library reads it as the post-release
  \<open>1.0.0.post1\<close>, above \<open>1.0.0\<close>: the test of line 418 is false, the operator is asked
  nothing and the update runs without \<open>--yes\<close> and without a confirmation. And an empty
  \<open>--version\<close> is false in the test of line 411: the requested version is not checked at
  all, and the command updates to the latest version.
\<close>

theorem requested_post_release_updates_unasked:
  "semver_le ''1.0.0-1'' CURRENT_VERSION
   \<and> parse_version ''1.0.0-1'' = Some ([1], 2)
   \<and> parse_version CURRENT_VERSION = Some ([1], 0)
   \<and> fst (update parse_version False (Some ''1.0.0-1'') declining_world) = Inr Updated
   \<and> questions_asked (snd (update parse_version False (Some ''1.0.0-1'') declining_world)) = []
   \<and> parse_version [] = None
   \<and> fst (update parse_version False (Some []) declining_world) = Inr Updated"
proof -
  have p: "parse_version ''1.0.0-1'' = Some ([1], 2)" "parse_version [] = None"
    "parse_version ''1.1.0'' = Some ([1, 1], 0)"
    by (simp_all add: parse_version_def release_numbers_def number_def digit_of_def)
  have s: "semver_le ''1.0.0-1'' CURRENT_VERSION"
    by (simp add: semver_le_def semver_fields_def release_numbers_def number_def digit_of_def
        CURRENT_VERSION_def)
  have l: "\<not> ([1 :: nat], 2) \<le> ([1], 0 :: nat)" "([1 :: nat], 0 :: nat) < ([1, 1], 0)"
    by (simp_all add: less_eq_prod_def less_prod_def)
  have c: "check_for_updates parse_version = Some ''1.1.0''"
    using l(2) by (simp add: check_for_updates_def p parse_version_current)
  have u: "fst (update_steps v w) = Inr Updated"
    "questions_asked (snd (update_steps v w)) = questions_asked w" for v w
    by (simp_all add: update_steps_def sleep_def max_sleep_def questions_asked_def prims emit_def)
  have e: "questions_asked declining_world = []"
    by (simp add: questions_asked_def declining_world_def quiet_world_def)
  have a: "update parse_version False (Some ''1.0.0-1'') declining_world =
      update_steps ''1.0.0-1'' declining_world"
    using l(1) by (simp add: update_def p parse_version_current)
  have b: "update parse_version False (Some []) declining_world =
      update_steps ''1.1.0'' declining_world"
    by (simp add: update_def c)
  show ?thesis
    unfolding a b using p(1,2) s u e parse_version_current by simp
qed

text \<open>
  C8, amended. An update that is given a version (a non-empty \<open>--version\<close>), for any
  version parser: when the version does not parse, the command prints the format error and
  returns (line 416) without doing any of the update; when it parses to a version at most
  the current one in the order of the parser, \<open>--yes\<close> is not set and the operator answers
  no to the downgrade question, the command prints the cancellation and returns (line 422)
  without doing any of the update; this is so in particular for the version \<open>1.0.0\<close>, the
  current one. An empty \<open>--version\<close> is treated as no version at all. With the version
  library as the parser, a version written \<open>major.minor.patch\<close> with nothing after it
  that is at most the current version in semantic-version ordering is cancelled in the
  same way when \<open>--yes\<close> is not set and the operator answers no.
\<close>

theorem update_requested_version_checked:
  fixes parse :: "string \<Rightarrow> 'v::linorder option"
  shows "(given version \<longrightarrow>
      (parse (the version) = None \<longrightarrow>
         fst (update parse yes_flag version w) = Inr InvalidVersionFormat
         \<and> work (snd (update parse yes_flag version w)) = work w)
      \<and> (parse (the version) = Some requested \<and> parse CURRENT_VERSION = Some current
          \<and> requested \<le> current \<and> \<not> yes_flag \<and> confirm_answers w = False # rest \<longrightarrow>
         fst (update parse yes_flag version w) = Inr UpdateCancelled
         \<and> work (snd (update parse yes_flag version w)) = work w)
      \<and> (version = Some ''1.0.0'' \<and> parse ''1.0.0'' = Some current
          \<and> \<not> yes_flag \<and> confirm_answers w = False # rest \<longrightarrow>
         fst (update parse yes_flag version w) = Inr UpdateCancelled
         \<and> work (snd (update parse yes_flag version w)) = work w)
      \<and> (CHR ''-'' \<notin> set (the version) \<and> semver_le (the version) CURRENT_VERSION
          \<and> \<not> yes_flag \<and> confirm_answers w = False # rest \<longrightarrow>
         fst (update parse_version yes_flag version w) = Inr UpdateCancelled
         \<and> work (snd (update parse_version yes_flag version w)) = work w))
    \<and> (\<not> given version \<longrightarrow> update parse yes_flag version w = update parse yes_flag None w)"
proof (intro impI conjI)
  assume "\<not> given version"
  then show "update parse yes_flag version w = update parse yes_flag None w"
    using update_empty_version[where parse = parse and version = version
        and yes_flag = yes_flag and w = w]
    by simp
next
  assume v: "given version"
  {
    assume "parse (the version) = None"
    with v update_unparsable[where parse = parse and version = version
        and yes_flag = yes_flag and w = w]
    show "fst (update parse yes_flag version w) = Inr InvalidVersionFormat"
      and "work (snd (update parse yes_flag version w)) = work w"
      by (simp_all add: prims)
  next
    assume h: "parse (the version) = Some requested \<and> parse CURRENT_VERSION = Some current
        \<and> requested \<le> current \<and> \<not> yes_flag \<and> confirm_answers w = False # rest"
    then show "fst (update parse yes_flag version w) = Inr UpdateCancelled"
      and "work (snd (update parse yes_flag version w)) = work w"
      using v update_downgrade_declined[where parse = parse and version = version
          and requested = requested and current = current and yes_flag = yes_flag
          and w = w and rest = rest]
      by blast+
  next
    assume h: "version = Some ''1.0.0'' \<and> parse ''1.0.0'' = Some current
        \<and> \<not> yes_flag \<and> confirm_answers w = False # rest"
    then have "parse (the version) = Some current" "parse CURRENT_VERSION = Some current"
      by (simp_all add: CURRENT_VERSION_def)
    with h show "fst (update parse yes_flag version w) = Inr UpdateCancelled"
      and "work (snd (update parse yes_flag version w)) = work w"
      using v update_downgrade_declined[where parse = parse and version = version
          and requested = current and current = current and yes_flag = yes_flag
          and w = w and rest = rest]
      by simp_all
  next
    assume h: "CHR ''-'' \<notin> set (the version) \<and> semver_le (the version) CURRENT_VERSION
        \<and> \<not> yes_flag \<and> confirm_answers w = False # rest"
    then show "fst (update parse_version yes_flag version w) = Inr UpdateCancelled"
      and "work (snd (update parse_version yes_flag version w)) = work w"
      using v update_semver_downgrade_declined[of version yes_flag w rest]
      by blast+
  }
qed

theorem update_requested_version_checked_witness:
  "given (Some ''abc'') \<and> parse_version ''abc'' = None
   \<and> fst (update parse_version False (Some ''abc'') declining_world) = Inr InvalidVersionFormat
   \<and> work (snd (update parse_version False (Some ''abc'') declining_world)) = []
   \<and> given (Some ''0.9.12'') \<and> parse_version ''0.9.12'' = Some ([0, 9, 12], 0)
   \<and> parse_version CURRENT_VERSION = Some ([1], 0) \<and> ([0, 9, 12], 0) \<le> ([1 :: nat], 0 :: nat)
   \<and> CHR ''-'' \<notin> set ''0.9.12'' \<and> semver_le ''0.9.12'' CURRENT_VERSION
   \<and> confirm_answers declining_world = False # []
   \<and> fst (update parse_version False (Some ''0.9.12'') declining_world) = Inr UpdateCancelled
   \<and> work (snd (update parse_version False (Some ''0.9.12'') declining_world)) = []
   \<and> fst (update parse_version False (Some ''1.0.0'') declining_world) = Inr UpdateCancelled
   \<and> work (snd (update parse_version False (Some ''1.0.0'') declining_world)) = []
   \<and> \<not> given (Some [])
   \<and> update parse_version False (Some []) declining_world =
       update parse_version False None declining_world"
proof -
  have p: "parse_version ''abc'' = None" "parse_version ''0.9.12'' = Some ([0, 9, 12], 0)"
    "parse_version CURRENT_VERSION = Some ([1], 0)" "parse_version ''1.0.0'' = Some ([1], 0)"
    by (simp_all add: parse_version_def release_numbers_def number_def digit_of_def
        CURRENT_VERSION_def)
  have l: "([0, 9, 12], 0) \<le> ([1 :: nat], 0 :: nat)" by (simp add: less_eq_prod_def)
  have s: "semver_le ''0.9.12'' CURRENT_VERSION"
    by (simp add: semver_le_def semver_fields_def release_numbers_def number_def digit_of_def
        CURRENT_VERSION_def)
  have e: "confirm_answers declining_world = False # []" "work declining_world = []"
    by (simp_all add: declining_world_def quiet_world_def work_def)
  have g: "given (Some ''abc'')" "given (Some ''0.9.12'')" "given (Some ''1.0.0'')"
    "\<not> given (Some [])"
    by (simp_all add:)
  show ?thesis
    using update_requested_version_checked[where version = "Some ''abc''"
        and parse = parse_version and yes_flag = False and w = declining_world]
      update_requested_version_checked[where version = "Some ''0.9.12''"
        and parse = parse_version and requested = "([0, 9, 12], 0)" and current = "([1], 0)"
        and yes_flag = False and w = declining_world and rest = "[]"]
      update_requested_version_checked[where version = "Some ''1.0.0''"
        and parse = parse_version and current = "([1], 0)"
        and yes_flag = False and w = declining_world and rest = "[]"]
      update_requested_version_checked[where version = "Some []"
        and parse = parse_version and yes_flag = False and w = declining_world]
      p l s e g
    by simp
qed

text \<open>
  C9. An update that is given no version calls \<open>check_for_updates\<close>. For any version
  parser: when the check fails (the parser raises on the latest or on the current
  version) or the latest version is not newer than the current one, the check returns
  \<open>None\<close> and the command prints that the latest version is already running and returns
  (line 427), with no exception and without doing any of the update.
\<close>

theorem update_without_version_already_latest:
  fixes parse :: "string \<Rightarrow> 'v::linorder option"
  shows "\<not> given version \<and>
     (parse ''1.1.0'' = None \<or> parse CURRENT_VERSION = None
      \<or> the (parse ''1.1.0'') \<le> the (parse CURRENT_VERSION)) \<longrightarrow>
     check_for_updates parse = None
     \<and> fst (update parse yes_flag version w) = Inr AlreadyLatest
     \<and> trace (snd (update parse yes_flag version w)) =
          trace w @ [Echo ''\<newline>You are already running the latest version.'']
     \<and> work (snd (update parse yes_flag version w)) = work w"
proof
  assume h: "\<not> given version \<and>
     (parse ''1.1.0'' = None \<or> parse CURRENT_VERSION = None
      \<or> the (parse ''1.1.0'') \<le> the (parse CURRENT_VERSION))"
  then have n: "check_for_updates parse = None"
    using check_for_updates_nothing[where parse = parse] by blast
  from h have g: "\<not> given version" ..
  from g n update_nothing_newer[where parse = parse and version = version
      and yes_flag = yes_flag and w = w]
  show "check_for_updates parse = None
     \<and> fst (update parse yes_flag version w) = Inr AlreadyLatest
     \<and> trace (snd (update parse yes_flag version w)) =
          trace w @ [Echo ''\<newline>You are already running the latest version.'']
     \<and> work (snd (update parse yes_flag version w)) = work w"
    by (simp add: prims)
qed

theorem update_without_version_already_latest_witness:
  "\<not> given None \<and> rejecting_parse ''1.1.0'' = None
   \<and> check_for_updates rejecting_parse = None
   \<and> fst (update rejecting_parse False None quiet_world) = Inr AlreadyLatest
   \<and> trace (snd (update rejecting_parse False None quiet_world)) =
        [Echo ''\<newline>You are already running the latest version.'']
   \<and> work (snd (update rejecting_parse False None quiet_world)) = []"
proof -
  have e: "trace quiet_world = []" "work quiet_world = []"
    by (simp_all add: quiet_world_def work_def)
  show ?thesis
    using update_without_version_already_latest[where version = None
        and parse = rejecting_parse and yes_flag = False and w = quiet_world] e
    by (simp add: rejecting_parse_def)
qed

subsection \<open>The staging directory of a support bundle\<close>









lemma and_then_simps [simp]:
  "and_then (Inl e, w) k = (Inl e, w)" "and_then (Inr x, w) k = k w"
  by (simp_all add: and_then_def)








lemma bundle_dir_emit [simp]: "bundle_dir (emit e w) = bundle_dir w"
  by (simp add: bundle_dir_def emit_def)





end
